theory Spec2Isabelle
  imports Complex_Main
begin


section \<open>Checkpoint paths\<close>

text \<open>
  \<^verbatim>\<open>KNRM.train\<close> saves the best-validation parameters with
  \<^verbatim>\<open>saver.save(sess, checkpoint_dir + '/data.ckpt')\<close> and the end-of-training parameters with
  \<^verbatim>\<open>saver.save(sess, checkpoint_dir + '/final_data.ckpt')\<close>; \<^verbatim>\<open>KNRM.test\<close> restores from
  \<^verbatim>\<open>p = checkpoint_dir + 'data.ckpt'\<close>. Python strings are modelled as \<^typ>\<open>string\<close>,
  \<^verbatim>\<open>+\<close> as \<open>@\<close>.
\<close>

definition train_best_path :: "string \<Rightarrow> string" where
  "train_best_path checkpoint_dir = checkpoint_dir @ ''/data.ckpt''"

definition train_final_path :: "string \<Rightarrow> string" where
  "train_final_path checkpoint_dir = checkpoint_dir @ ''/final_data.ckpt''"

definition test_restore_path :: "string \<Rightarrow> string" where
  "test_restore_path checkpoint_dir = checkpoint_dir @ ''data.ckpt''"


section \<open>Pairwise hinge loss\<close>

text \<open>
  \<^verbatim>\<open>loss = tf.reduce_mean(tf.maximum(0.0, 1 - o_pos + o_neg))\<close>, where \<^verbatim>\<open>o_pos\<close> and
  \<^verbatim>\<open>o_neg\<close> have shape \<^verbatim>\<open>[batch_size, 1]\<close>. A score column is a list of reals (float32
  rounding is not modelled). \<open>hinge\<close> is the expression under the mean at one row; the mean
  of an empty tensor is NaN in TensorFlow, here \<open>None\<close>.
\<close>

definition hinge :: "real \<Rightarrow> real \<Rightarrow> real" where
  "hinge o_pos o_neg = max 0 (1 - o_pos + o_neg)"

definition reduce_mean :: "real list \<Rightarrow> real option" where
  "reduce_mean xs = (if xs = [] then None else Some (sum_list xs / real (length xs)))"

definition loss :: "real list \<Rightarrow> real list \<Rightarrow> real option" where
  "loss o_pos o_neg = reduce_mean (map2 hinge o_pos o_neg)"

section \<open>Kernel Bank\<close>

text \<open>
  \<^verbatim>\<open>KNRM.__init__\<close> calls \<^verbatim>\<open>KNRM.kernal_mus(self.n_bins, use_exact=True)\<close> and
  \<^verbatim>\<open>KNRM.kernel_sigmas(self.n_bins, self.lamb, use_exact=True)\<close>, which the class inherits
  from \<^verbatim>\<open>BaseNN\<close>.
\<close>

text \<open>Modelled from the spec: the bin spacing of \<^verbatim>\<open>BaseNN.kernal_mus\<close> and
  \<^verbatim>\<open>BaseNN.kernel_sigmas\<close>, \<^verbatim>\<open>2.0 / (n_bins - 1)\<close>.\<close>

definition bin_spacing :: "nat \<Rightarrow> real" where
  "bin_spacing n_kernels = 2 / (real n_kernels - 1)"

text \<open>Modelled from the spec: the sigma of the exact-match bin in \<^verbatim>\<open>BaseNN.kernel_sigmas\<close>,
  "a small fixed constant (e.g. 1e-3)".\<close>

definition exact_sigma :: real where
  "exact_sigma = 1 / 1000"

text \<open>Modelled from the spec: \<^verbatim>\<open>BaseNN.kernal_mus\<close> with \<^verbatim>\<open>use_exact=True\<close>. Entry 0 is
  the exact-match bin, \<open>mu = 1.0\<close>; the other \<open>n_bins - 1\<close> entries are the centres of the
  bins of width \<open>bin_spacing\<close> that cover \<open>(-1, 1)\<close>, in increasing order.\<close>

definition kernal_mus :: "nat \<Rightarrow> real list" where
  "kernal_mus n_kernels =
     1 # map (\<lambda>i. - 1 + bin_spacing n_kernels / 2 + real i * bin_spacing n_kernels) [0..<n_kernels - 1]"

text \<open>Modelled from the spec: \<^verbatim>\<open>BaseNN.kernel_sigmas\<close> with \<^verbatim>\<open>use_exact=True\<close>. Entry 0
  is the exact-match sigma; every other entry is \<open>lamb\<close> times the bin spacing.\<close>

definition kernel_sigmas :: "nat \<Rightarrow> real \<Rightarrow> real list" where
  "kernel_sigmas n_kernels lamb = exact_sigma # replicate (n_kernels - 1) (lamb * bin_spacing n_kernels)"

section \<open>Sessions, checkpoints and faults\<close>

text \<open>
  Every exception that ends \<^verbatim>\<open>train\<close> or \<^verbatim>\<open>test\<close> early is a value. \<^verbatim>\<open>exit(-1)\<close>
  raises \<^verbatim>\<open>SystemExit(-1)\<close>; the others are uncaught exceptions. Nothing in the file
  catches any of them, so each ends the process: \<open>exit_status\<close> is the status the
  interpreter then reports (the argument of \<^verbatim>\<open>exit\<close> modulo 256, and 1 for an uncaught
  exception).
\<close>

datatype fault =
    SystemExit int
  | ZeroDivisionError
  | TypeError
  | ValueError
  | StopIteration
  | NotFoundError string

definition exit_status :: "fault \<Rightarrow> int" where
  "exit_status e = (case e of SystemExit c \<Rightarrow> c mod 256 | _ \<Rightarrow> 1)"

text \<open>
  What a run does to the session and to its files, in order:
  \<^verbatim>\<open>tf.initialize_all_variables().run()\<close>, \<^verbatim>\<open>saver.restore(sess, path)\<close>,
  \<^verbatim>\<open>saver.save(sess, path)\<close>, \<^verbatim>\<open>sess.run([optimizer, loss], ...)\<close>, one validation pass,
  \<^verbatim>\<open>pair_stream.close()\<close> at the end of an epoch, and \<^verbatim>\<open>outfile.write(text)\<close>.
\<close>

datatype event =
    Initialized
  | Restored string
  | Saved string
  | Optimized
  | Validated
  | Closed_pair_stream
  | Wrote string

text \<open>
  The checkpoint directory as the run finds it: \<open>ckpt_state dir\<close> is the
  \<^verbatim>\<open>model_checkpoint_path\<close> of \<^verbatim>\<open>tf.train.get_checkpoint_state(dir)\<close>, \<open>None\<close> when that
  returns \<^verbatim>\<open>None\<close>; \<open>ckpt_data\<close> maps a checkpoint path to the parameters stored there.
  \<^verbatim>\<open>train\<close> reads the checkpoint state once, before its first save, so the update of the
  state file by \<^verbatim>\<open>saver.save\<close> is left out. The parameters are any type \<open>'p\<close>.
\<close>

record 'p checkpoints =
  ckpt_state :: "string \<Rightarrow> string option"
  ckpt_data :: "string \<rightharpoonup> 'p"

record 'p session =
  variables :: 'p
  disk :: "string \<rightharpoonup> 'p"
  trace :: "event list"

text \<open>The local variables of the training loop, on top of the session.\<close>

record 'p train_run = "'p session" +
  step :: nat
  smallest_val_loss :: real
  train_loss :: real

text \<open>
  The configuration and the collaborators of a \<^verbatim>\<open>KNRM\<close> object that \<^verbatim>\<open>train\<close> and
  \<^verbatim>\<open>test\<close> use. The configuration traits are declared in \<^verbatim>\<open>BaseNN\<close>; the data generators,
  \<^verbatim>\<open>re_pad\<close> and \<^verbatim>\<open>gen_mask\<close> are defined outside this file and the optimizer and the
  forward pass run inside TensorFlow, so all of them are parameters:
  \<^item> \<open>train_batches epoch\<close>: the batches \<^verbatim>\<open>pairwise_reader\<close> yields from the training file
    in that epoch; \<open>val_batches step\<close>: the batches it yields from the validation file in
    the validation pass of that step; \<open>n_rows b\<close> is \<^verbatim>\<open>X['idf'].shape[0]\<close>;
  \<^item> \<open>run_loss\<close> is \<^verbatim>\<open>sess.run(loss, feed)\<close> and \<open>run_optimizer\<close> the parameters after
    \<^verbatim>\<open>sess.run(optimizer, feed)\<close>;
  \<^item> \<open>point_batches b\<close>: the rows that the \<open>b\<close>-th
    \<^verbatim>\<open>next(pointwise_generate(test_point_stream, ...))\<close> returns, \<open>None\<close> when it raises
    \<^verbatim>\<open>StopIteration\<close>; \<open>re_pad\<close> on the rows of a batch; \<open>run_score\<close> the score
    \<^verbatim>\<open>sess.run(o, feed)\<close> computes for one row; \<open>format_score\<close> is \<^verbatim>\<open>'{0}'.format(score[0])\<close>.
\<close>

record ('p, 'b, 'r) knrm =
  batch_size :: nat
  max_epochs :: nat
  eval_frequency :: int
  initial_variables :: 'p
  train_batches :: "nat \<Rightarrow> 'b list"
  val_batches :: "nat \<Rightarrow> 'b list"
  n_rows :: "'b \<Rightarrow> nat"
  run_loss :: "'p \<Rightarrow> 'b \<Rightarrow> real"
  run_optimizer :: "'p \<Rightarrow> 'b \<Rightarrow> 'p"
  point_batches :: "nat \<Rightarrow> 'r list option"
  re_pad :: "'r list \<Rightarrow> nat \<Rightarrow> 'r list"
  run_score :: "'p \<Rightarrow> 'r \<Rightarrow> real"
  format_score :: "real \<Rightarrow> string"

type_synonym 'p outcome = "(fault \<times> event list) + 'p session"

text \<open>The events of a run, whether it returned or stopped with a fault.\<close>

definition events_of :: "'p outcome \<Rightarrow> event list" where
  "events_of res = (case res of Inl (e, tr) \<Rightarrow> tr | Inr s \<Rightarrow> trace s)"

fun saved_paths :: "event list \<Rightarrow> string list" where
  "saved_paths [] = []"
| "saved_paths (Saved p # tr) = p # saved_paths tr"
| "saved_paths (e # tr) = saved_paths tr"

fun written :: "event list \<Rightarrow> string list" where
  "written [] = []"
| "written (Wrote l # tr) = l # written tr"
| "written (e # tr) = written tr"

section \<open>The Pairwise Trainer\<close>

text \<open>
  \<^verbatim>\<open>saver.save(sess, checkpoint_dir + suffix)\<close>. The command line passes
  \<^verbatim>\<open>args.checkpoint_dir\<close>, which is \<^verbatim>\<open>None\<close> when the flag is absent; \<^verbatim>\<open>None + '/data.ckpt'\<close>
  raises \<^verbatim>\<open>TypeError\<close>.
\<close>

definition save_to :: "(string \<Rightarrow> string) \<Rightarrow> string option \<Rightarrow> 'p train_run
    \<Rightarrow> (fault \<times> event list) + 'p train_run" where
  "save_to path_of checkpoint_dir r =
     (case checkpoint_dir of
        None \<Rightarrow> Inl (TypeError, trace r)
      | Some d \<Rightarrow>
          Inr (r\<lparr>disk := (disk r)(path_of d \<mapsto> variables r),
                 trace := trace r @ [Saved (path_of d)]\<rparr>))"

text \<open>
  The start of the session in \<^verbatim>\<open>train\<close>: fresh parameters, or the checkpoint that the
  checkpoint state of the directory names; \<^verbatim>\<open>exit(-1)\<close> when \<^verbatim>\<open>ckpt\<close> is \<^verbatim>\<open>None\<close> or its
  \<^verbatim>\<open>model_checkpoint_path\<close> is empty. \<^verbatim>\<open>saver.restore\<close> raises when the path holds no
  checkpoint.
\<close>

definition start_training :: "('p, 'b, 'r) knrm \<Rightarrow> 'p checkpoints \<Rightarrow> string option \<Rightarrow> bool
    \<Rightarrow> (fault \<times> event list) + 'p train_run" where
  "start_training K fs checkpoint_dir load_model =
     (if \<not> load_model then
        Inr \<lparr>variables = initial_variables K, disk = ckpt_data fs, trace = [Initialized],
             step = 0, smallest_val_loss = 100000, train_loss = 0\<rparr>
      else
        (case checkpoint_dir of
           None \<Rightarrow> Inl (TypeError, [])
         | Some d \<Rightarrow>
             (case ckpt_state fs d of
                None \<Rightarrow> Inl (SystemExit (- 1), [])
              | Some path \<Rightarrow>
                  if path = [] then Inl (SystemExit (- 1), [])
                  else
                    (case ckpt_data fs path of
                       None \<Rightarrow> Inl (NotFoundError path, [])
                     | Some p \<Rightarrow>
                         Inr \<lparr>variables = p, disk = ckpt_data fs, trace = [Restored path],
                              step = 0, smallest_val_loss = 100000, train_loss = 0\<rparr>))))"

text \<open>
  The body of the loop over the batches of an epoch. \<open>train_size\<close> is the line count of the
  training file (\<^verbatim>\<open>neg_sample\<close> is 1); it divides in the progress line. The validation
  loss is the mean over the validation batches, \<^verbatim>\<open>val_loss /= n_val_batch\<close>.
\<close>

definition train_batch :: "('p, 'b, 'r) knrm \<Rightarrow> nat \<Rightarrow> string option \<Rightarrow> 'p train_run \<Rightarrow> 'b
    \<Rightarrow> (fault \<times> event list) + 'p train_run" where
  "train_batch K train_size checkpoint_dir r0 b =
     (let r1 = r0\<lparr>step := step r0 + 1\<rparr> in
      if n_rows K b \<noteq> batch_size K then Inr r1
      else
        let r2 = r1\<lparr>variables := run_optimizer K (variables r1) b,
                     trace := trace r1 @ [Optimized],
                     train_loss := train_loss r1 + run_loss K (variables r1) b\<rparr> in
        if eval_frequency K = 0 then Inl (ZeroDivisionError, trace r2)
        else if (int (step r2) + 1) mod eval_frequency K \<noteq> 0 then Inr r2
        else if train_size = 0 then Inl (ZeroDivisionError, trace r2)
        else
          let vb = val_batches K (step r2);
              r3 = r2\<lparr>trace := trace r2 @ [Validated]\<rparr> in
          if vb = [] then Inl (ZeroDivisionError, trace r3)
          else
            let val_loss = sum_list (map (run_loss K (variables r3)) vb) / real (length vb);
                r4 = r3\<lparr>train_loss := 0\<rparr> in
            if val_loss < smallest_val_loss r4
            then save_to train_best_path checkpoint_dir (r4\<lparr>smallest_val_loss := val_loss\<rparr>)
            else Inr r4)"

fun train_epoch :: "('p, 'b, 'r) knrm \<Rightarrow> nat \<Rightarrow> string option \<Rightarrow> 'p train_run \<Rightarrow> 'b list
    \<Rightarrow> (fault \<times> event list) + 'p train_run" where
  "train_epoch K train_size checkpoint_dir r [] = Inr r"
| "train_epoch K train_size checkpoint_dir r (b # bs) =
     (case train_batch K train_size checkpoint_dir r b of
        Inl e \<Rightarrow> Inl e
      | Inr r' \<Rightarrow> train_epoch K train_size checkpoint_dir r' bs)"

text \<open>The loop over the epochs; an epoch ends with \<^verbatim>\<open>pair_stream.close()\<close> and nothing else.\<close>

fun train_epochs :: "('p, 'b, 'r) knrm \<Rightarrow> nat \<Rightarrow> string option \<Rightarrow> 'p train_run \<Rightarrow> nat list
    \<Rightarrow> (fault \<times> event list) + 'p train_run" where
  "train_epochs K train_size checkpoint_dir r [] = Inr r"
| "train_epochs K train_size checkpoint_dir r (epoch # epochs) =
     (case train_epoch K train_size checkpoint_dir r (train_batches K epoch) of
        Inl e \<Rightarrow> Inl e
      | Inr r' \<Rightarrow>
          train_epochs K train_size checkpoint_dir
            (r'\<lparr>trace := trace r' @ [Closed_pair_stream]\<rparr>) epochs)"

definition train :: "('p, 'b, 'r) knrm \<Rightarrow> 'p checkpoints \<Rightarrow> nat \<Rightarrow> string option \<Rightarrow> bool
    \<Rightarrow> 'p outcome" where
  "train K fs train_size checkpoint_dir load_model =
     (case start_training K fs checkpoint_dir load_model of
        Inl e \<Rightarrow> Inl e
      | Inr r0 \<Rightarrow>
          (case train_epochs K train_size checkpoint_dir r0 [0..<max_epochs K] of
             Inl e \<Rightarrow> Inl e
           | Inr r \<Rightarrow>
               (case save_to train_final_path checkpoint_dir r of
                  Inl e \<Rightarrow> Inl e
                | Inr r' \<Rightarrow>
                    Inr \<lparr>variables = variables r', disk = disk r', trace = trace r'\<rparr>)))"

section \<open>The Batch Scorer\<close>

text \<open>
  The start of the session in \<^verbatim>\<open>test\<close>: restore from \<^verbatim>\<open>checkpoint_dir + 'data.ckpt'\<close> when
  \<^verbatim>\<open>load_model\<close> is set, else \<^verbatim>\<open>tf.initialize_all_variables().run()\<close>. The parameter
  \<^verbatim>\<open>checkpoint_dir\<close> defaults to \<^verbatim>\<open>None\<close>.
\<close>

definition start_testing :: "('p, 'b, 'r) knrm \<Rightarrow> 'p checkpoints \<Rightarrow> string option \<Rightarrow> bool
    \<Rightarrow> 'p outcome" where
  "start_testing K fs checkpoint_dir load_model =
     (if load_model then
        (case checkpoint_dir of
           None \<Rightarrow> Inl (TypeError, [])
         | Some d \<Rightarrow>
             (case ckpt_data fs (test_restore_path d) of
                None \<Rightarrow> Inl (NotFoundError (test_restore_path d), [])
              | Some p \<Rightarrow>
                  Inr \<lparr>variables = p, disk = ckpt_data fs,
                       trace = [Restored (test_restore_path d)]\<rparr>))
      else
        Inr \<lparr>variables = initial_variables K, disk = ckpt_data fs, trace = [Initialized]\<rparr>)"

text \<open>
  One line of the output file: \<^verbatim>\<open>'{0}\n'.format(score[0])\<close>.
\<close>

definition score_line :: "('p, 'b, 'r) knrm \<Rightarrow> 'p \<Rightarrow> 'r \<Rightarrow> string" where
  "score_line K p row = format_score K (run_score K p row) @ [CHR 0x0A]"

text \<open>
  The loop over the batches. Every placeholder has \<^verbatim>\<open>batch_size\<close> rows, so a feed with
  another number of rows is refused (\<^verbatim>\<open>ValueError\<close>) and \<^verbatim>\<open>scores\<close> has one row for each
  row fed; the loop writes one line for each row of \<^verbatim>\<open>scores\<close>.
\<close>

fun score_batches :: "('p, 'b, 'r) knrm \<Rightarrow> 'p session \<Rightarrow> nat list \<Rightarrow> 'p outcome" where
  "score_batches K s [] = Inr s"
| "score_batches K s (b # bs) =
     (case point_batches K b of
        None \<Rightarrow> Inl (StopIteration, trace s)
      | Some X \<Rightarrow>
          if length (re_pad K X (batch_size K)) \<noteq> batch_size K then Inl (ValueError, trace s)
          else
            score_batches K
              (s\<lparr>trace := trace s
                    @ map (\<lambda>row. Wrote (score_line K (variables s) row))
                        (re_pad K X (batch_size K))\<rparr>) bs)"

text \<open>
  \<^verbatim>\<open>range(int(np.ceil(float(test_size) / self.batch_size)))\<close>: the division raises when the
  batch size is zero; the ceiling of the quotient of two naturals is computed on naturals.
\<close>

definition n_test_batches :: "nat \<Rightarrow> nat \<Rightarrow> nat" where
  "n_test_batches test_size bs = (test_size + bs - 1) div bs"

definition test :: "('p, 'b, 'r) knrm \<Rightarrow> 'p checkpoints \<Rightarrow> nat \<Rightarrow> string option \<Rightarrow> bool
    \<Rightarrow> 'p outcome" where
  "test K fs test_size checkpoint_dir load_model =
     (case start_testing K fs checkpoint_dir load_model of
        Inl e \<Rightarrow> Inl e
      | Inr s \<Rightarrow>
          if batch_size K = 0 then Inl (ZeroDivisionError, trace s)
          else score_batches K s [0..<n_test_batches test_size (batch_size K)])"

section \<open>The command line\<close>

text \<open>
  The parsed arguments that decide what runs, and the line counts of the two input files
  (\<^verbatim>\<open>get_file_line_count\<close>). With \<^verbatim>\<open>--train\<close> the script trains; otherwise it calls
  \<^verbatim>\<open>nn.test(..., load_model=True, checkpoint_dir=args.checkpoint_dir, ...)\<close>.
\<close>

record args =
  arg_train :: bool
  arg_load_model :: bool
  arg_checkpoint_dir :: "string option"
  train_file_lines :: nat
  test_file_lines :: nat

definition main :: "('p, 'b, 'r) knrm \<Rightarrow> 'p checkpoints \<Rightarrow> args \<Rightarrow> 'p outcome" where
  "main K fs a =
     (if arg_train a
      then train K fs (train_file_lines a) (arg_checkpoint_dir a) (arg_load_model a)
      else test K fs (test_file_lines a) (arg_checkpoint_dir a) True)"

section \<open>Tensors and TensorFlow operations\<close>

text \<open>
  The forward pass is modelled for one row of a batch: every operation of \<^verbatim>\<open>model\<close> and
  \<^verbatim>\<open>conv_model\<close> acts on each batch row on its own. A vector is a list of reals and a
  matrix a list of rows. Scalars are real numbers: the rounding of \<^verbatim>\<open>float32\<close> is not
  modelled. The values a float can take beyond the reals are: they arise from a logarithm
  or a division (\<open>tf_float\<close>), and a pass in which one arises stops with
  \<open>NonFiniteValue\<close> instead of carrying it on.
\<close>

type_synonym vec = "real list"
type_synonym mat = "real list list"

datatype tf_float = Finite real | PosInf | NegInf | NaN

datatype tf_error =
    InvalidArgumentError
  | ShapeError
  | NonFiniteValue
  | UninitializedVariable
  | VariableExists
  | VariableMissing

definition bind_err :: "tf_error + 'a \<Rightarrow> ('a \<Rightarrow> tf_error + 'b) \<Rightarrow> tf_error + 'b" where
  "bind_err r f = (case r of Inl e \<Rightarrow> Inl e | Inr x \<Rightarrow> f x)"

fun map_err :: "('a \<Rightarrow> tf_error + 'b) \<Rightarrow> 'a list \<Rightarrow> tf_error + 'b list" where
  "map_err f [] = Inr []"
| "map_err f (x # xs) =
     bind_err (f x) (\<lambda>y. bind_err (map_err f xs) (\<lambda>ys. Inr (y # ys)))"

definition finite_value :: "tf_float \<Rightarrow> tf_error + real" where
  "finite_value x = (case x of Finite r \<Rightarrow> Inr r | _ \<Rightarrow> Inl NonFiniteValue)"

text \<open>\<^verbatim>\<open>tf.log\<close> and \<^verbatim>\<open>tf.log1p\<close> on a finite argument, and the product of a float with a
  finite constant.\<close>

definition tf_log :: "real \<Rightarrow> tf_float" where
  "tf_log x = (if 0 < x then Finite (ln x) else if x = 0 then NegInf else NaN)"

definition tf_log1p :: "real \<Rightarrow> tf_float" where
  "tf_log1p x = tf_log (1 + x)"

definition tf_scale :: "tf_float \<Rightarrow> real \<Rightarrow> tf_float" where
  "tf_scale x c =
     (case x of
        Finite r \<Rightarrow> Finite (r * c)
      | PosInf \<Rightarrow> (if 0 < c then PosInf else if c < 0 then NegInf else NaN)
      | NegInf \<Rightarrow> (if 0 < c then NegInf else if c < 0 then PosInf else NaN)
      | NaN \<Rightarrow> NaN)"

text \<open>\<^verbatim>\<open>tf.nn.embedding_lookup(self.embeddings, ids)\<close>: an id outside the table is refused.\<close>

definition embedding_lookup :: "mat \<Rightarrow> nat list \<Rightarrow> tf_error + mat" where
  "embedding_lookup table ids =
     map_err (\<lambda>i. if i < length table then Inr (table ! i) else Inl InvalidArgumentError) ids"

text \<open>
  \<^verbatim>\<open>x / tf.sqrt(tf.reduce_sum(tf.square(x), 2, keep_dims=True))\<close> on the rows of one batch
  row. A row of norm zero divides by zero.
\<close>

definition l2_normalize :: "mat \<Rightarrow> tf_error + mat" where
  "l2_normalize x =
     map_err (\<lambda>v. if v \<noteq> [] \<and> sqrt (sum_list (map (\<lambda>a. a\<^sup>2) v)) = 0 then Inl NonFiniteValue
                  else Inr (map (\<lambda>a. a / sqrt (sum_list (map (\<lambda>a. a\<^sup>2) v))) v)) x"

definition dot :: "vec \<Rightarrow> vec \<Rightarrow> real" where
  "dot a b = sum_list (map2 (*) a b)"

text \<open>\<^verbatim>\<open>tf.matmul(q, tf.transpose(d, perm=[0, 2, 1]))\<close>: entry \<open>(i, j)\<close> is the inner product of
  row \<open>i\<close> of \<open>q\<close> and row \<open>j\<close> of \<open>d\<close>.\<close>

definition similarity_matrix :: "mat \<Rightarrow> mat \<Rightarrow> mat" where
  "similarity_matrix q d = map (\<lambda>qv. map (\<lambda>dv. dot qv dv) d) q"

section \<open>Kernel pooling\<close>

text \<open>
  \<^verbatim>\<open>tf.exp(-tf.square(tf.subtract(rs_sim, mu)) / (tf.multiply(tf.square(sigma), 2)))\<close> at one
  similarity and one kernel. With \<open>sigma = 0\<close> the quotient is \<open>-0 / 0\<close>, NaN, when the
  similarity equals \<open>mu\<close>, and minus infinity otherwise, whose exponential is \<open>0\<close>.
\<close>

definition gaussian :: "real \<Rightarrow> real \<Rightarrow> real \<Rightarrow> tf_error + real" where
  "gaussian sim mu sigma =
     (if sigma = 0 then (if sim = mu then Inl NonFiniteValue else Inr 0)
      else Inr (exp (- (sim - mu)\<^sup>2 / (sigma\<^sup>2 * 2))))"

text \<open>\<^verbatim>\<open>tmp = tmp * mask; kde = tf.reduce_sum(tmp, [2])\<close>: for one query position and one kernel,
  the masked kernel values summed over the document positions.\<close>

definition kde_entry :: "vec \<Rightarrow> vec \<Rightarrow> real \<Rightarrow> real \<Rightarrow> tf_error + real" where
  "kde_entry sim_row mask_row mu sigma =
     bind_err (map_err (\<lambda>(s, m). bind_err (gaussian s mu sigma) (\<lambda>g. Inr (g * m)))
                 (zip sim_row mask_row))
       (\<lambda>tmp. Inr (sum_list tmp))"

text \<open>The summed densities of one batch row: one row for each query position, one entry for
  each kernel.\<close>

definition kde_rows :: "mat \<Rightarrow> mat \<Rightarrow> vec \<Rightarrow> vec \<Rightarrow> tf_error + mat" where
  "kde_rows sim msk mu sigma =
     map_err (\<lambda>(sim_row, mask_row).
                map_err (\<lambda>(m, s). kde_entry sim_row mask_row m s) (zip mu sigma))
       (zip sim msk)"

text \<open>The log compression of \<^verbatim>\<open>model\<close>:
  \<^verbatim>\<open>kde = tf.log(tf.maximum(kde, 1e-10)) * 0.01\<close>.\<close>

definition model_log_kde :: "real \<Rightarrow> tf_float" where
  "model_log_kde kde = tf_scale (tf_log (max kde (1 / 10 ^ 10))) (1 / 100)"

text \<open>The log compression of \<^verbatim>\<open>conv_model\<close>: \<^verbatim>\<open>kde = tf.log1p(kde)\<close>.\<close>

definition conv_model_log_kde :: "real \<Rightarrow> tf_float" where
  "conv_model_log_kde kde = tf_log1p kde"

definition compress_rows :: "(real \<Rightarrow> tf_float) \<Rightarrow> mat \<Rightarrow> tf_error + mat" where
  "compress_rows f kde = map_err (map_err (\<lambda>x. finite_value (f x))) kde"

text \<open>\<^verbatim>\<open>aggregated_kde = tf.reduce_sum(kde * q_weights, [1])\<close>: for each of the \<open>n\<close> kernels, the
  compressed densities weighted by the query term weights and summed over the query
  positions.\<close>

definition aggregate :: "nat \<Rightarrow> mat \<Rightarrow> vec \<Rightarrow> vec" where
  "aggregate n kde q_weights =
     map (\<lambda>k. sum_list (map2 (\<lambda>row w. row ! k * w) kde q_weights)) [0..<n]"

definition kernel_pooling :: "(real \<Rightarrow> tf_float) \<Rightarrow> mat \<Rightarrow> mat \<Rightarrow> vec \<Rightarrow> vec \<Rightarrow> vec
    \<Rightarrow> tf_error + vec" where
  "kernel_pooling f sim msk q_weights mu sigma =
     bind_err (kde_rows sim msk mu sigma) (\<lambda>kde.
     bind_err (compress_rows f kde) (\<lambda>log_kde.
     Inr (aggregate (length mu) log_kde q_weights)))"

section \<open>The model object and the Scorer\<close>

text \<open>
  The configuration traits the forward pass uses (declared in \<^verbatim>\<open>BaseNN\<close> and in \<^verbatim>\<open>KNRM\<close>)
  and the class attribute \<^verbatim>\<open>kernel_sizes = [1, 2, 3]\<close>.
\<close>

record shape_config =
  n_bins :: nat
  max_q_len :: nat
  max_d_len :: nat
  vocabulary_size :: nat
  embedding_size :: nat
  num_filters :: nat

definition kernel_sizes :: "nat list" where
  "kernel_sizes = [1, 2, 3]"

text \<open>
  A variable scope name is a list of parts from the outermost scope inwards; a part is a
  name and the index that made it unique, so that \<open>(''conv1d'', 2)\<close> stands for
  \<^verbatim>\<open>conv1d_2\<close> and index \<open>0\<close> for the bare name.
\<close>

type_synonym scope_name = "(string \<times> nat) list"

text \<open>The variables of one \<^verbatim>\<open>tf.layers.conv1d\<close> layer: \<^verbatim>\<open>kernel\<close> of shape
  \<^verbatim>\<open>[size, embedding_size, num_filters]\<close> and \<^verbatim>\<open>bias\<close> of shape \<^verbatim>\<open>[num_filters]\<close>.\<close>

record conv_filter =
  kernel :: "real list list list"
  bias :: vec

text \<open>
  The values of the variables in a session: the attributes \<^verbatim>\<open>self.embeddings\<close>,
  \<^verbatim>\<open>self.W1\<close>, \<^verbatim>\<open>self.b1\<close> and \<^verbatim>\<open>self.W2\<close> that \<^verbatim>\<open>__init__\<close> creates (the two weight
  matrices have one column and are kept as that column), and the variables of the
  convolution layers by the scope name of their layer.
\<close>

record weights =
  embeddings :: mat
  W1 :: vec
  b1 :: real
  W2 :: vec
  conv_vars :: "scope_name \<rightharpoonup> conv_filter"

text \<open>The shapes \<^verbatim>\<open>__init__\<close> gives the variables:
  \<^verbatim>\<open>[self.vocabulary_size + 1, self.embedding_size]\<close>, \<^verbatim>\<open>[self.n_bins, 1]\<close> and
  \<^verbatim>\<open>[self.n_bins * pow(len(self.kernel_sizes), 2), 1]\<close>.\<close>

definition embeddings_shape :: "shape_config \<Rightarrow> nat list" where
  "embeddings_shape cfg = [vocabulary_size cfg + 1, embedding_size cfg]"



text \<open>
  \<^verbatim>\<open>lo = tf.matmul(feats, W) + self.b1; o = tf.tanh(lo)\<close> on the feature vector of one batch
  row. \<^verbatim>\<open>tf.matmul\<close> refuses a feature width other than the number of rows of \<open>W\<close>.
\<close>

definition scorer :: "vec \<Rightarrow> vec \<Rightarrow> real \<Rightarrow> tf_error + real" where
  "scorer feats W b =
     (if length feats \<noteq> length W then Inl ShapeError else Inr (tanh (dot feats W + b)))"

text \<open>The shapes of the placeholders one batch row is fed into, and of \<open>mu\<close> and \<open>sigma\<close>.\<close>

definition feed_ok :: "shape_config \<Rightarrow> nat list \<Rightarrow> nat list \<Rightarrow> mat \<Rightarrow> vec \<Rightarrow> vec \<Rightarrow> vec \<Rightarrow> bool"
  where
  "feed_ok cfg inputs_q inputs_d msk q_weights mu sigma \<longleftrightarrow>
     length inputs_q = max_q_len cfg \<and> length inputs_d = max_d_len cfg
     \<and> length msk = max_q_len cfg \<and> list_all (\<lambda>row. length row = max_d_len cfg) msk
     \<and> length q_weights = max_q_len cfg
     \<and> length mu = n_bins cfg \<and> length sigma = n_bins cfg"

section \<open>The unigram model\<close>

text \<open>\<^verbatim>\<open>feats_flat\<close> of \<^verbatim>\<open>KNRM.model\<close> for one batch row.\<close>

definition model_feats :: "shape_config \<Rightarrow> weights \<Rightarrow> nat list \<Rightarrow> nat list \<Rightarrow> mat \<Rightarrow> vec
    \<Rightarrow> vec \<Rightarrow> vec \<Rightarrow> tf_error + vec" where
  "model_feats cfg w inputs_q inputs_d msk q_weights mu sigma =
     (if \<not> feed_ok cfg inputs_q inputs_d msk q_weights mu sigma then Inl ShapeError
      else
        bind_err (embedding_lookup (embeddings w) inputs_q) (\<lambda>q_embed.
        bind_err (embedding_lookup (embeddings w) inputs_d) (\<lambda>d_embed.
        bind_err (l2_normalize q_embed) (\<lambda>normalized_q_embed.
        bind_err (l2_normalize d_embed) (\<lambda>normalized_d_embed.
        kernel_pooling model_log_kde
          (similarity_matrix normalized_q_embed normalized_d_embed) msk q_weights mu sigma)))))"

text \<open>The score \<^verbatim>\<open>o\<close> of \<^verbatim>\<open>KNRM.model\<close> for one batch row.\<close>

definition model :: "shape_config \<Rightarrow> weights \<Rightarrow> nat list \<Rightarrow> nat list \<Rightarrow> mat \<Rightarrow> vec
    \<Rightarrow> vec \<Rightarrow> vec \<Rightarrow> tf_error + real" where
  "model cfg w inputs_q inputs_d msk q_weights mu sigma =
     bind_err (model_feats cfg w inputs_q inputs_d msk q_weights mu sigma)
       (\<lambda>feats_flat. scorer feats_flat (W1 w) (b1 w))"

section \<open>The convolution model\<close>

definition relu :: "real \<Rightarrow> real" where
  "relu x = max 0 x"

definition filter_ok :: "nat \<Rightarrow> nat \<Rightarrow> nat \<Rightarrow> conv_filter \<Rightarrow> bool" where
  "filter_ok ksize emb filters flt \<longleftrightarrow>
     length (kernel flt) = ksize
     \<and> list_all (\<lambda>m. length m = emb \<and> list_all (\<lambda>v. length v = filters) m) (kernel flt)
     \<and> length (bias flt) = filters"

text \<open>
  \<^verbatim>\<open>tf.layers.conv1d(x, filters, size, padding='same', activation=tf.nn.relu)\<close> on one batch
  row \<open>x\<close> of \<open>emb\<close> columns: the input is padded with \<open>ksize - 1\<close> zero rows, the smaller half
  in front, and output position \<open>t\<close>, filter \<open>f\<close> is the rectified sum of the bias and of
  the window starting at \<open>t\<close> weighted by the kernel.
\<close>

definition conv1d :: "conv_filter \<Rightarrow> nat \<Rightarrow> nat \<Rightarrow> nat \<Rightarrow> mat \<Rightarrow> mat" where
  "conv1d flt emb filters ksize x =
     (let pad_left = (ksize - 1) div 2;
          padded = replicate pad_left (replicate emb 0) @ x
                     @ replicate (ksize - 1 - pad_left) (replicate emb 0)
      in map (\<lambda>t. map (\<lambda>f. relu (bias flt ! f
                   + sum_list (map (\<lambda>k. sum_list (map (\<lambda>c. padded ! (t + k) ! c
                                                            * kernel flt ! k ! c ! f)
                                                  [0..<emb]))
                            [0..<ksize])))
                 [0..<filters])
           [0..<length x])"

text \<open>One convolution layer, reading the variables of the layer called \<open>name\<close>.\<close>

definition conv_layer :: "shape_config \<Rightarrow> weights \<Rightarrow> scope_name \<Rightarrow> nat \<Rightarrow> mat
    \<Rightarrow> tf_error + mat" where
  "conv_layer cfg w name ksize x =
     (case conv_vars w name of
        None \<Rightarrow> Inl UninitializedVariable
      | Some flt \<Rightarrow>
          if \<not> filter_ok ksize (embedding_size cfg) (num_filters cfg) flt
             \<or> \<not> list_all (\<lambda>v. length v = embedding_size cfg) x
          then Inl ShapeError
          else Inr (conv1d flt (embedding_size cfg) (num_filters cfg) ksize x))"

text \<open>
  \<^verbatim>\<open>feats_tmp\<close> of \<^verbatim>\<open>KNRM.conv_model\<close> for one batch row. \<open>layers\<close> holds, for each window
  ksize in turn, the names of the layer applied to the query and of the layer applied to
  the document, as the construction of the graph assigned them.
\<close>

definition conv_model_feats :: "shape_config \<Rightarrow> weights \<Rightarrow> (scope_name \<times> scope_name) list
    \<Rightarrow> nat list \<Rightarrow> nat list \<Rightarrow> mat \<Rightarrow> vec \<Rightarrow> vec \<Rightarrow> vec \<Rightarrow> tf_error + vec" where
  "conv_model_feats cfg w layers inputs_q inputs_d msk q_weights mu sigma =
     (if \<not> feed_ok cfg inputs_q inputs_d msk q_weights mu sigma
         \<or> length layers \<noteq> length kernel_sizes then Inl ShapeError
      else
        bind_err (embedding_lookup (embeddings w) inputs_q) (\<lambda>q_embed.
        bind_err (embedding_lookup (embeddings w) inputs_d) (\<lambda>d_embed.
        bind_err (map_err (\<lambda>(ksize, names). conv_layer cfg w (fst names) ksize q_embed)
                    (zip kernel_sizes layers)) (\<lambda>q_convs.
        bind_err (map_err (\<lambda>(ksize, names). conv_layer cfg w (snd names) ksize d_embed)
                    (zip kernel_sizes layers)) (\<lambda>d_convs.
        bind_err (map_err l2_normalize q_convs) (\<lambda>normalized_q_convs.
        bind_err (map_err l2_normalize d_convs) (\<lambda>normalized_d_convs.
        bind_err (map_err (\<lambda>sim. kernel_pooling conv_model_log_kde sim msk q_weights mu sigma)
                    (concat (map (\<lambda>normalized_q_conv.
                                    map (\<lambda>normalized_d_conv.
                                           similarity_matrix normalized_q_conv normalized_d_conv)
                                      normalized_d_convs)
                               normalized_q_convs))) (\<lambda>feats.
        Inr (concat feats)))))))))"

text \<open>The score \<^verbatim>\<open>o\<close> of \<^verbatim>\<open>KNRM.conv_model\<close> for one batch row.\<close>

definition conv_model :: "shape_config \<Rightarrow> weights \<Rightarrow> (scope_name \<times> scope_name) list
    \<Rightarrow> nat list \<Rightarrow> nat list \<Rightarrow> mat \<Rightarrow> vec \<Rightarrow> vec \<Rightarrow> vec \<Rightarrow> tf_error + real" where
  "conv_model cfg w layers inputs_q inputs_d msk q_weights mu sigma =
     bind_err (conv_model_feats cfg w layers inputs_q inputs_d msk q_weights mu sigma)
       (\<lambda>feats_tmp. scorer feats_tmp (W2 w) (b1 w))"

section \<open>Variable scopes and the construction of the training graph\<close>

text \<open>
  Which variables a forward pass reads is decided when the graph is built, by TensorFlow's
  variable scopes. The part of that machinery the file relies on is modelled here:
  \<^item> the graph holds the variables created so far, each under the scope it was created in,
    and the set of scope names that count as opened (\<^verbatim>\<open>variable_scopes_count\<close> positive);
  \<^item> \<^verbatim>\<open>tf.variable_scope(name, reuse=r)\<close> extends the current scope name, takes \<open>r\<close> as its
    reuse mode unless \<open>r\<close> is \<^verbatim>\<open>None\<close>, in which case it inherits the mode of the current
    scope, and marks the new name opened; leaving it marks every scope strictly below it
    as not opened;
  \<^item> \<^verbatim>\<open>tf.get_variable\<close> creates the variable when none of that name exists (and refuses
    under \<^verbatim>\<open>reuse=True\<close>), and returns the existing one otherwise (and refuses without
    reuse);
  \<^item> a layer without a \<^verbatim>\<open>name\<close>, such as each \<^verbatim>\<open>tf.layers.conv1d\<close> call of \<^verbatim>\<open>conv_model\<close>,
    takes the first of \<^verbatim>\<open>conv1d\<close>, \<^verbatim>\<open>conv1d_1\<close>, \<^verbatim>\<open>conv1d_2\<close>, ... that is not opened in
    the current scope, and creates or reuses \<^verbatim>\<open>kernel\<close> and \<^verbatim>\<open>bias\<close> under it.
\<close>

datatype reuse = No_Reuse | Reuse | Auto_Reuse

record var_store =
  var_names :: "(scope_name \<times> string) list"
  opened :: "scope_name list"

record var_scope =
  scope_path :: scope_name
  scope_reuse :: reuse

definition root_scope :: var_scope where
  "root_scope = \<lparr>scope_path = [], scope_reuse = No_Reuse\<rparr>"

definition get_variable :: "var_scope \<Rightarrow> string \<Rightarrow> var_store \<Rightarrow> tf_error + var_store" where
  "get_variable sc name g =
     (if (scope_path sc, name) \<in> set (var_names g)
      then (if scope_reuse sc = No_Reuse then Inl VariableExists else Inr g)
      else (if scope_reuse sc = Reuse then Inl VariableMissing
            else Inr (g\<lparr>var_names := var_names g @ [(scope_path sc, name)]\<rparr>)))"

definition enter_scope :: "var_scope \<Rightarrow> string \<times> nat \<Rightarrow> reuse \<Rightarrow> var_store
    \<Rightarrow> var_scope \<times> var_store" where
  "enter_scope cur part r g =
     (\<lparr>scope_path = scope_path cur @ [part],
       scope_reuse = (if r = No_Reuse then scope_reuse cur else r)\<rparr>,
      g\<lparr>opened := List.insert (scope_path cur @ [part]) (opened g)\<rparr>)"

definition below :: "scope_name \<Rightarrow> scope_name \<Rightarrow> bool" where
  "below path k \<longleftrightarrow> length path < length k \<and> take (length path) k = path"

definition exit_scope :: "scope_name \<Rightarrow> var_store \<Rightarrow> var_store" where
  "exit_scope path g = g\<lparr>opened := filter (\<lambda>k. \<not> below path k) (opened g)\<rparr>"

text \<open>\<^verbatim>\<open>with tf.variable_scope(name, reuse=r) as scope: body\<close>.\<close>

definition with_scope :: "var_scope \<Rightarrow> string \<Rightarrow> reuse
    \<Rightarrow> (var_scope \<Rightarrow> var_store \<Rightarrow> tf_error + 'a \<times> var_store)
    \<Rightarrow> var_store \<Rightarrow> tf_error + 'a \<times> var_store" where
  "with_scope cur name r body g =
     (case enter_scope cur (name, 0) r g of
        (sc, g1) \<Rightarrow>
          bind_err (body sc g1) (\<lambda>(x, g2). Inr (x, exit_scope (scope_path sc) g2)))"

text \<open>The loop that makes a default layer name unique: the first index from \<open>idx\<close> on whose
  name is not opened in the current scope.\<close>

function first_free :: "scope_name \<Rightarrow> string \<Rightarrow> scope_name list \<Rightarrow> nat \<Rightarrow> nat" where
  "first_free path prefix used idx =
     (if path @ [(prefix, idx)] \<in> set used then first_free path prefix used (Suc idx)
      else idx)"
  by pat_completeness auto
termination
proof (relation "measure (\<lambda>(path, prefix, used, idx).
    card {i. idx \<le> i \<and> path @ [(prefix, i)] \<in> set used})")
  show "wf (measure (\<lambda>(path, prefix, used, idx).
    card {i. idx \<le> i \<and> path @ [(prefix, i)] \<in> set used}))"
    by simp
next
  fix path :: scope_name and prefix :: string and used :: "scope_name list" and idx :: nat
  assume hit: "path @ [(prefix, idx)] \<in> set used"
  let ?S = "\<lambda>n. {i. n \<le> i \<and> path @ [(prefix, i)] \<in> set used}"
  have "?S idx \<subseteq> (\<lambda>k. snd (last k)) ` set used"
    by force
  then have fin: "finite (?S idx)"
    by (rule finite_subset) simp
  have "?S (Suc idx) \<subseteq> ?S idx" "idx \<in> ?S idx" "idx \<notin> ?S (Suc idx)"
    using hit by auto
  then have "?S (Suc idx) \<subset> ?S idx"
    by blast
  then have "card (?S (Suc idx)) < card (?S idx)"
    using fin by (rule psubset_card_mono[rotated])
  then show "((path, prefix, used, Suc idx), (path, prefix, used, idx))
      \<in> measure (\<lambda>(path, prefix, used, idx).
          card {i. idx \<le> i \<and> path @ [(prefix, i)] \<in> set used})"
    by simp
qed

declare first_free.simps [simp del]

text \<open>One \<^verbatim>\<open>tf.layers.conv1d(...)\<close> call without a name, in the scope \<open>cur\<close>: the scope name
  of the layer and the graph after the call.\<close>

definition conv1d_vars :: "var_scope \<Rightarrow> var_store \<Rightarrow> tf_error + scope_name \<times> var_store" where
  "conv1d_vars cur g =
     (case enter_scope cur (''conv1d'', first_free (scope_path cur) ''conv1d'' (opened g) 0)
             No_Reuse g of
        (sc, g1) \<Rightarrow>
          bind_err (get_variable sc ''kernel'' g1) (\<lambda>g2.
          bind_err (get_variable sc ''bias'' g2) (\<lambda>g3.
          Inr (scope_path sc, exit_scope (scope_path sc) g3))))"

text \<open>The loop \<^verbatim>\<open>for size in self.kernel_sizes\<close> of \<^verbatim>\<open>conv_model\<close>: a layer for the query and
  a layer for the document for each window size.\<close>

fun conv_layers_vars :: "var_scope \<Rightarrow> nat list \<Rightarrow> var_store
    \<Rightarrow> tf_error + (scope_name \<times> scope_name) list \<times> var_store" where
  "conv_layers_vars sc [] g = Inr ([], g)"
| "conv_layers_vars sc (ksize # sizes) g =
     bind_err (conv1d_vars sc g) (\<lambda>(conv_q, g1).
     bind_err (conv1d_vars sc g1) (\<lambda>(conv_d, g2).
     bind_err (conv_layers_vars sc sizes g2) (\<lambda>(rest, g3).
     Inr ((conv_q, conv_d) # rest, g3))))"

text \<open>The variables one call of \<^verbatim>\<open>conv_model\<close> makes the graph read: the scopes \<^verbatim>\<open>cnn\<close>,
  \<^verbatim>\<open>kernel\<close> and \<^verbatim>\<open>fc\<close> are entered in turn with \<^verbatim>\<open>reuse=tf.AUTO_REUSE\<close>; only the first
  holds layers.\<close>

definition conv_model_vars :: "var_scope \<Rightarrow> var_store
    \<Rightarrow> tf_error + (scope_name \<times> scope_name) list \<times> var_store" where
  "conv_model_vars cur g =
     bind_err (with_scope cur ''cnn'' Auto_Reuse (\<lambda>sc. conv_layers_vars sc kernel_sizes) g)
       (\<lambda>(layers, g1).
     bind_err (with_scope cur ''kernel'' Auto_Reuse (\<lambda>sc g'. Inr ((), g')) g1) (\<lambda>(u, g2).
     bind_err (with_scope cur ''fc'' Auto_Reuse (\<lambda>sc g'. Inr ((), g')) g2) (\<lambda>(u', g3).
     Inr (layers, g3))))"

text \<open>
  The training graph of \<^verbatim>\<open>train\<close>. Without \<^verbatim>\<open>conv\<close> both passes call \<^verbatim>\<open>self.model\<close>, which
  reads attributes of the object only. With \<^verbatim>\<open>conv\<close> the positive pass is built inside
  \<^verbatim>\<open>tf.variable_scope("model")\<close>, then \<^verbatim>\<open>scope.reuse_variables()\<close> sets the reuse mode of
  that scope, then the negative pass is built. The result is the layer names of the
  positive and of the negative pass.
\<close>

definition train_graph :: "bool \<Rightarrow> var_store
    \<Rightarrow> tf_error + ((scope_name \<times> scope_name) list \<times> (scope_name \<times> scope_name) list)
          \<times> var_store" where
  "train_graph conv g =
     (if \<not> conv then Inr (([], []), g)
      else
        with_scope root_scope ''model'' No_Reuse
          (\<lambda>scope g1.
             bind_err (conv_model_vars scope g1) (\<lambda>(pos, g2).
             bind_err (conv_model_vars (scope\<lparr>scope_reuse := Reuse\<rparr>) g2) (\<lambda>(neg, g3).
             Inr ((pos, neg), g3)))) g)"

text \<open>
  The two scores \<^verbatim>\<open>o_pos\<close> and \<^verbatim>\<open>o_neg\<close> of the training graph for one batch row: the query
  and its term weights are shared, the document ids and the mask are those of the positive
  and of the negative document.
\<close>

definition train_scores_row :: "shape_config \<Rightarrow> weights \<Rightarrow> var_store \<Rightarrow> bool
    \<Rightarrow> vec \<Rightarrow> vec
    \<Rightarrow> nat list \<times> vec \<times> (nat list \<times> mat) \<times> (nat list \<times> mat)
    \<Rightarrow> tf_error + real \<times> real" where
  "train_scores_row cfg w g conv mu sigma row =
     (case row of (inputs_q, q_weights, (pos_d, mask_pos), (neg_d, mask_neg)) \<Rightarrow>
        bind_err (train_graph conv g) (\<lambda>((pos, neg), g').
          if \<not> conv then
            bind_err (model cfg w inputs_q pos_d mask_pos q_weights mu sigma) (\<lambda>o_pos.
            bind_err (model cfg w inputs_q neg_d mask_neg q_weights mu sigma) (\<lambda>o_neg.
            Inr (o_pos, o_neg)))
          else
            bind_err (conv_model cfg w pos inputs_q pos_d mask_pos q_weights mu sigma) (\<lambda>o_pos.
            bind_err (conv_model cfg w neg inputs_q neg_d mask_neg q_weights mu sigma) (\<lambda>o_neg.
            Inr (o_pos, o_neg)))))"

text \<open>The score vectors \<^verbatim>\<open>o_pos\<close> and \<^verbatim>\<open>o_neg\<close> for a batch.\<close>

definition train_scores :: "shape_config \<Rightarrow> weights \<Rightarrow> var_store \<Rightarrow> bool \<Rightarrow> vec \<Rightarrow> vec
    \<Rightarrow> (nat list \<times> vec \<times> (nat list \<times> mat) \<times> (nat list \<times> mat)) list
    \<Rightarrow> tf_error + vec \<times> vec" where
  "train_scores cfg w g conv mu sigma batch =
     bind_err (map_err (train_scores_row cfg w g conv mu sigma) batch)
       (\<lambda>scores. Inr (map fst scores, map snd scores))"

section \<open>Auxiliary notions for the proofs\<close>

text \<open>
  The invariant of the training loop: so far every save went to the best-validation path,
  there are no more saves than validation passes, and \<open>c\<close> epochs have ended.
\<close>

definition saves_ok :: "string \<Rightarrow> nat \<Rightarrow> event list \<Rightarrow> bool" where
  "saves_ok d c tr \<longleftrightarrow>
     set (saved_paths tr) \<subseteq> {train_best_path d}
     \<and> length (saved_paths tr) \<le> count_list tr Validated
     \<and> count_list tr Closed_pair_stream = c"

text \<open>
  The layer names a run of the loop over the window sizes assigns when the layers
  \<^verbatim>\<open>conv1d\<close>, ..., up to index \<open>n\<close> exclusive are the opened ones of the scope: the query
  layer takes index \<open>n\<close>, the document layer the next, and so on.
\<close>

fun layer_names :: "scope_name \<Rightarrow> nat list \<Rightarrow> nat \<Rightarrow> (scope_name \<times> scope_name) list" where
  "layer_names path [] n = []"
| "layer_names path (ksize # sizes) n =
     (path @ [(''conv1d'', n)], path @ [(''conv1d'', Suc n)])
       # layer_names path sizes (Suc (Suc n))"

text \<open>The variables of a list of layers: \<^verbatim>\<open>kernel\<close> and \<^verbatim>\<open>bias\<close> of each.\<close>

fun layer_vars :: "(scope_name \<times> scope_name) list \<Rightarrow> (scope_name \<times> string) set" where
  "layer_vars [] = {}"
| "layer_vars ((a, b) # ls) =
     {(a, ''kernel''), (a, ''bias''), (b, ''kernel''), (b, ''bias'')} \<union> layer_vars ls"

definition children_upto :: "scope_name \<Rightarrow> nat \<Rightarrow> scope_name list \<Rightarrow> bool" where
  "children_upto path n used \<longleftrightarrow>
     (\<forall>i. path @ [(''conv1d'', i)] \<in> set used \<longleftrightarrow> i < n)"

text \<open>The six layers of \<^verbatim>\<open>conv_model\<close> inside \<^verbatim>\<open>tf.variable_scope("model")\<close>:
  \<^verbatim>\<open>model/cnn/conv1d\<close> and \<^verbatim>\<open>model/cnn/conv1d_1\<close> for window size 1, and so on.\<close>

definition conv_layer_names :: "(scope_name \<times> scope_name) list" where
  "conv_layer_names =
     [([(''model'', 0), (''cnn'', 0), (''conv1d'', 0)],
       [(''model'', 0), (''cnn'', 0), (''conv1d'', 1)]),
      ([(''model'', 0), (''cnn'', 0), (''conv1d'', 2)],
       [(''model'', 0), (''cnn'', 0), (''conv1d'', 3)]),
      ([(''model'', 0), (''cnn'', 0), (''conv1d'', 4)],
       [(''model'', 0), (''cnn'', 0), (''conv1d'', 5)])]"

section \<open>Example objects\<close>

text \<open>
  Concrete values of the parameters above, on which the definitions are evaluated: a model
  whose parameters are a counter of optimizer steps, whose training batches are given by
  their row counts and whose test rows are numbers. The training file yields two full
  batches and a partial one in every epoch; the test file holds three rows that the
  generator delivers as a full batch and a partial one, and \<open>re_pad\<close> fills a partial
  batch with the padding row \<open>0\<close>.
\<close>

definition example_knrm :: "int \<Rightarrow> (nat, nat, nat) knrm" where
  "example_knrm freq =
     \<lparr>batch_size = 2, max_epochs = 2, eval_frequency = freq, initial_variables = 0,
      train_batches = (\<lambda>epoch. [2, 2, 1]), val_batches = (\<lambda>step. [2]),
      n_rows = (\<lambda>b. b), run_loss = (\<lambda>p b. 1), run_optimizer = (\<lambda>p b. p + 1),
      point_batches = (\<lambda>b. if b = 0 then Some [1, 2] else if b = 1 then Some [3] else None),
      re_pad = (\<lambda>X n. X @ replicate (n - length X) 0),
      run_score = (\<lambda>p row. real (p + row) / 4),
      format_score = (\<lambda>x. if x < 1 / 2 then ''lo'' else ''hi'')\<rparr>"

text \<open>An empty checkpoint directory, and one that holds a best-validation checkpoint.\<close>

definition no_checkpoints :: "nat checkpoints" where
  "no_checkpoints = \<lparr>ckpt_state = (\<lambda>d. None), ckpt_data = Map.empty\<rparr>"

definition one_checkpoint :: "nat checkpoints" where
  "one_checkpoint =
     \<lparr>ckpt_state = (\<lambda>d. if d = ''ckpt/'' then Some ''ckpt/data.ckpt'' else None),
      ckpt_data = [''ckpt/data.ckpt'' \<mapsto> 0]\<rparr>"

text \<open>A checkpoint state that names a checkpoint whose data is gone.\<close>

definition stale_checkpoint :: "nat checkpoints" where
  "stale_checkpoint =
     \<lparr>ckpt_state = (\<lambda>d. if d = ''ckpt'' then Some ''ckpt/data.ckpt'' else None),
      ckpt_data = Map.empty\<rparr>"

text \<open>A checkpoint directory whose best-validation checkpoint holds parameters other than
  the initial ones.\<close>

definition trained_checkpoint :: "nat checkpoints" where
  "trained_checkpoint =
     \<lparr>ckpt_state = (\<lambda>d. if d = ''ckpt/'' then Some ''ckpt/data.ckpt'' else None),
      ckpt_data = [''ckpt/data.ckpt'' \<mapsto> 1]\<rparr>"

text \<open>
  A smallest configuration for the forward pass: one kernel (the exact-match bin), queries
  and documents of one term, a vocabulary of one term besides the padding id, embeddings
  and filters of width one. Every convolution layer has the kernel of its window size
  filled with ones and no bias.
\<close>

definition example_config :: shape_config where
  "example_config =
     \<lparr>n_bins = 1, max_q_len = 1, max_d_len = 1, vocabulary_size = 1, embedding_size = 1,
      num_filters = 1\<rparr>"

definition example_filter :: "nat \<Rightarrow> conv_filter" where
  "example_filter ksize = \<lparr>kernel = replicate ksize [[1]], bias = [0]\<rparr>"

definition example_weights :: weights where
  "example_weights =
     \<lparr>embeddings = [[1], [1]], W1 = [1], b1 = 0, W2 = replicate 9 1,
      conv_vars = map_of
        [([(''model'', 0), (''cnn'', 0), (''conv1d'', 0)], example_filter 1),
         ([(''model'', 0), (''cnn'', 0), (''conv1d'', 1)], example_filter 1),
         ([(''model'', 0), (''cnn'', 0), (''conv1d'', 2)], example_filter 2),
         ([(''model'', 0), (''cnn'', 0), (''conv1d'', 3)], example_filter 2),
         ([(''model'', 0), (''cnn'', 0), (''conv1d'', 4)], example_filter 3),
         ([(''model'', 0), (''cnn'', 0), (''conv1d'', 5)], example_filter 3)]\<rparr>"

text \<open>A graph in which no variable and no variable scope exists yet.\<close>

definition empty_graph :: var_store where
  "empty_graph = \<lparr>var_names = [], opened = []\<rparr>"

section \<open>Properties of the checkpoint paths\<close>




section \<open>Properties of the hinge loss\<close>

lemma hinge_zero_iff: "hinge p n = 0 \<longleftrightarrow> 1 \<le> p - n"
  by (auto simp: hinge_def max_def)

lemma hinge_pos: "p - n < 1 \<Longrightarrow> 0 < hinge p n"
  by (auto simp: hinge_def max_def)

lemma sum_list_map2_nth:
  assumes "length xs = length ys"
  shows "sum_list (map2 f xs ys) = (\<Sum>i<length xs. f (xs ! i) (ys ! i))"
proof -
  have "sum_list (map2 f xs ys) = (\<Sum>i<length (map2 f xs ys). map2 f xs ys ! i)"
    by (simp add: sum_list_sum_nth atLeast0LessThan)
  also have "\<dots> = (\<Sum>i<length xs. f (xs ! i) (ys ! i))"
    using assms by (intro sum.cong) auto
  finally show ?thesis .
qed

lemma loss_is_mean_of_hinges:
  assumes "length o_pos = length o_neg" and "o_pos \<noteq> []"
  shows "loss o_pos o_neg =
     Some ((\<Sum>i<length o_pos. max 0 (1 - o_pos ! i + o_neg ! i)) / real (length o_pos))"
proof -
  from assms have "map2 hinge o_pos o_neg \<noteq> []"
    by (cases o_pos; cases o_neg) auto
  then show ?thesis
    using assms(1) by (simp add: loss_def reduce_mean_def sum_list_map2_nth hinge_def)
qed

text \<open>
  Claim C5, as the spec states it, fails at its own first example: for \<open>pos = 0.9\<close>,
  \<open>neg = 0.2\<close> the difference \<open>0.7\<close> is below the margin and the loss is \<open>0.3\<close>, not \<open>0\<close>.
\<close>

theorem hinge_example_not_zero:
  "loss [9 / 10] [2 / 10] = Some (3 / 10) \<and> loss [9 / 10] [2 / 10] \<noteq> Some 0
   \<and> \<not> 1 \<le> (9 / 10 :: real) - 2 / 10"
  by (simp add: loss_def reduce_mean_def hinge_def)

text \<open>
  Claim C5, amended. For every non-empty batch of positive scores \<open>o_pos\<close> and negative
  scores \<open>o_neg\<close> the training loss is the mean over the batch of
  \<open>max(0, 1 - o_pos + o_neg)\<close>; the loss of one pair is zero exactly when
  \<open>o_pos - o_neg \<ge> 1\<close> and positive otherwise; \<open>pos = 0.9, neg = 0.2\<close> gives loss \<open>0.3\<close>
  and \<open>pos = 0.5, neg = 0.6\<close> gives loss \<open>1.1\<close>.
\<close>

theorem loss_is_mean_hinge:
  "(length o_pos = length o_neg \<and> o_pos \<noteq> [] \<longrightarrow>
      loss o_pos o_neg =
        Some ((\<Sum>i<length o_pos. max 0 (1 - o_pos ! i + o_neg ! i)) / real (length o_pos)))
   \<and> (hinge p n = 0 \<longleftrightarrow> 1 \<le> p - n)
   \<and> (p - n < 1 \<longrightarrow> 0 < hinge p n)
   \<and> loss [9 / 10] [2 / 10] = Some (3 / 10)
   \<and> loss [5 / 10] [6 / 10] = Some (11 / 10)"
proof -
  have "loss [9 / 10] [2 / 10] = Some (3 / 10)" "loss [5 / 10] [6 / 10] = Some (11 / 10)"
    by (simp_all add: loss_def reduce_mean_def hinge_def)
  then show ?thesis
    using loss_is_mean_of_hinges hinge_zero_iff hinge_pos by blast
qed

theorem loss_is_mean_hinge_witness:
  "length [9 / 10, 1 / 2 :: real] = length [- 1 / 5, 3 / 5 :: real]
   \<and> [9 / 10, 1 / 2 :: real] \<noteq> []
   \<and> loss [9 / 10, 1 / 2] [- 1 / 5, 3 / 5] = Some (11 / 20)
   \<and> hinge (9 / 10) (- 1 / 5) = 0 \<and> 1 \<le> (9 / 10 :: real) - (- 1 / 5)
   \<and> (1 / 2 :: real) - 3 / 5 < 1 \<and> 0 < hinge (1 / 2) (3 / 5)"
  using loss_is_mean_hinge [of "[9 / 10, 1 / 2]" "[- 1 / 5, 3 / 5]" "9 / 10" "- 1 / 5"]
    loss_is_mean_hinge [of "[]" "[]" "1 / 2" "3 / 5"]
  by (simp add: lessThan_Suc numeral_2_eq_2)

section \<open>Properties of the Kernel Bank\<close>

lemma bin_spacing_pos: "2 \<le> n_kernels \<Longrightarrow> 0 < bin_spacing n_kernels"
  by (simp add: bin_spacing_def)

lemma kernal_mus_rest:
  "1 \<le> i \<Longrightarrow> i < n_kernels \<Longrightarrow>
   kernal_mus n_kernels ! i = - 1 + bin_spacing n_kernels / 2 + real (i - 1) * bin_spacing n_kernels"
  by (cases i) (auto simp: kernal_mus_def)

lemma kernal_mus_step:
  "1 \<le> i \<Longrightarrow> i + 1 < n_kernels \<Longrightarrow>
   kernal_mus n_kernels ! (i + 1) - kernal_mus n_kernels ! i = bin_spacing n_kernels"
  by (cases i) (auto simp: kernal_mus_def algebra_simps)

lemma kernal_mus_increasing:
  assumes "2 \<le> n_kernels" "1 \<le> i" "i < j" "j < n_kernels"
  shows "kernal_mus n_kernels ! i < kernal_mus n_kernels ! j"
proof -
  have "real (i - 1) < real (j - 1)" using assms by simp
  then have "real (i - 1) * bin_spacing n_kernels < real (j - 1) * bin_spacing n_kernels"
    using bin_spacing_pos[OF assms(1)] by simp
  then show ?thesis
    using assms by (simp add: kernal_mus_rest)
qed

lemma kernel_sigmas_rest:
  "1 \<le> i \<Longrightarrow> i < n_kernels \<Longrightarrow> kernel_sigmas n_kernels lamb ! i = lamb * bin_spacing n_kernels"
  by (cases i) (auto simp: kernel_sigmas_def)

lemma kernel_sigmas_pos:
  assumes "2 \<le> n_kernels" "0 < lamb" "i < n_kernels"
  shows "0 < kernel_sigmas n_kernels lamb ! i"
proof (cases i)
  case 0
  then show ?thesis by (simp add: kernel_sigmas_def exact_sigma_def)
next
  case (Suc k)
  then show ?thesis
    using assms bin_spacing_pos[OF assms(1)] by (simp add: kernel_sigmas_rest)
qed

text \<open>
  Claim C6, as stated, fails for a small \<open>lamb\<close>: with two bins and \<open>lamb = 0.0001\<close> the
  ordinary sigma is \<open>0.0002\<close>, below the exact-match sigma \<open>0.001\<close>.
\<close>

theorem exact_sigma_not_below_others:
  "(2::nat) \<le> 2 \<and> (0::real) < 1 / 10000
   \<and> kernel_sigmas 2 (1 / 10000) = [1 / 1000, 1 / 5000]
   \<and> \<not> kernel_sigmas 2 (1 / 10000) ! 0 < kernel_sigmas 2 (1 / 10000) ! 1"
  by (simp add: kernel_sigmas_def bin_spacing_def exact_sigma_def numeral_2_eq_2)

text \<open>
  Claim C6, amended. For every \<open>n_bins \<ge> 2\<close> and \<open>lamb > 0\<close> the Kernel Bank produces \<open>mu\<close>
  and \<open>sigma\<close> sequences of length \<open>n_bins\<close>; the exact-match bin (entry 0) has \<open>mu = 1.0\<close>
  and the fixed sigma \<open>0.001\<close>, which is below the other sigmas exactly when
  \<open>lamb * spacing > 0.001\<close>; the remaining \<open>mu\<close> values are evenly spaced with spacing
  \<open>2.0 / (n_bins - 1)\<close> and strictly increasing; every non-exact sigma is \<open>lamb\<close> times the
  spacing; all sigma values are positive.
\<close>

theorem kernel_bank_shape:
  "2 \<le> n_kernels \<Longrightarrow> 0 < lamb \<Longrightarrow>
   length (kernal_mus n_kernels) = n_kernels \<and> length (kernel_sigmas n_kernels lamb) = n_kernels
   \<and> kernal_mus n_kernels ! 0 = 1 \<and> kernel_sigmas n_kernels lamb ! 0 = 1 / 1000
   \<and> (\<forall>i. 1 \<le> i \<and> i < n_kernels \<longrightarrow>
        (kernel_sigmas n_kernels lamb ! 0 < kernel_sigmas n_kernels lamb ! i
           \<longleftrightarrow> 1 / 1000 < lamb * (2 / (real n_kernels - 1))))
   \<and> (\<forall>i. 1 \<le> i \<and> i + 1 < n_kernels \<longrightarrow>
        kernal_mus n_kernels ! (i + 1) - kernal_mus n_kernels ! i = 2 / (real n_kernels - 1))
   \<and> (\<forall>i j. 1 \<le> i \<and> i < j \<and> j < n_kernels \<longrightarrow> kernal_mus n_kernels ! i < kernal_mus n_kernels ! j)
   \<and> (\<forall>i. 1 \<le> i \<and> i < n_kernels \<longrightarrow>
        kernel_sigmas n_kernels lamb ! i = lamb * (2 / (real n_kernels - 1)))
   \<and> (\<forall>i < n_kernels. 0 < kernel_sigmas n_kernels lamb ! i)"
proof -
  assume n: "2 \<le> n_kernels" and l: "0 < lamb"
  have 1: "length (kernal_mus n_kernels) = n_kernels" "length (kernel_sigmas n_kernels lamb) = n_kernels"
    using n by (simp_all add: kernal_mus_def kernel_sigmas_def)
  have 2: "kernal_mus n_kernels ! 0 = 1" "kernel_sigmas n_kernels lamb ! 0 = 1 / 1000"
    by (simp_all add: kernal_mus_def kernel_sigmas_def exact_sigma_def)
  have 3: "\<forall>i. 1 \<le> i \<and> i < n_kernels \<longrightarrow>
        (kernel_sigmas n_kernels lamb ! 0 < kernel_sigmas n_kernels lamb ! i
           \<longleftrightarrow> 1 / 1000 < lamb * (2 / (real n_kernels - 1)))"
  proof (intro allI impI)
    fix i assume "1 \<le> i \<and> i < n_kernels"
    then have e: "kernel_sigmas n_kernels lamb ! i = lamb * (2 / (real n_kernels - 1))"
      by (simp add: kernel_sigmas_rest bin_spacing_def)
    show "kernel_sigmas n_kernels lamb ! 0 < kernel_sigmas n_kernels lamb ! i
           \<longleftrightarrow> 1 / 1000 < lamb * (2 / (real n_kernels - 1))"
      unfolding e 2(2) by (rule refl)
  qed
  have 4: "\<forall>i. 1 \<le> i \<and> i + 1 < n_kernels \<longrightarrow>
        kernal_mus n_kernels ! (i + 1) - kernal_mus n_kernels ! i = 2 / (real n_kernels - 1)"
    using kernal_mus_step[of _ n_kernels] by (simp add: bin_spacing_def)
  have 5: "\<forall>i j. 1 \<le> i \<and> i < j \<and> j < n_kernels \<longrightarrow> kernal_mus n_kernels ! i < kernal_mus n_kernels ! j"
    using kernal_mus_increasing[OF n] by blast
  have 6: "\<forall>i. 1 \<le> i \<and> i < n_kernels \<longrightarrow>
        kernel_sigmas n_kernels lamb ! i = lamb * (2 / (real n_kernels - 1))"
    by (simp add: kernel_sigmas_rest bin_spacing_def)
  have 7: "\<forall>i < n_kernels. 0 < kernel_sigmas n_kernels lamb ! i"
    using kernel_sigmas_pos[OF n l] by blast
  show ?thesis using 1 2 3 4 5 6 7 by blast
qed

theorem kernel_bank_shape_witness:
  "(2::nat) \<le> 5 \<and> (0::real) < 1 / 2
   \<and> kernal_mus 5 = [1, - 3 / 4, - 1 / 4, 1 / 4, 3 / 4]
   \<and> kernel_sigmas 5 (1 / 2) = [1 / 1000, 1 / 4, 1 / 4, 1 / 4, 1 / 4]
   \<and> kernal_mus 5 ! (2 + 1) - kernal_mus 5 ! 2 = 2 / (real 5 - 1)
   \<and> kernal_mus 5 ! 1 < kernal_mus 5 ! 4
   \<and> kernel_sigmas 5 (1 / 2) ! 0 < kernel_sigmas 5 (1 / 2) ! 3"
proof -
  have h: "(2::nat) \<le> 5" "(0::real) < 1 / 2" by simp_all
  have v: "kernal_mus 5 = [1, - 3 / 4, - 1 / 4, 1 / 4, 3 / 4]"
    "kernel_sigmas 5 (1 / 2) = [1 / 1000, 1 / 4, 1 / 4, 1 / 4, 1 / 4]"
    by (simp_all add: kernal_mus_def kernel_sigmas_def bin_spacing_def exact_sigma_def
        upt_rec numeral_eq_Suc)
  note t = kernel_bank_shape [OF h]
  from t have A: "\<forall>i. 1 \<le> i \<and> i + 1 < 5 \<longrightarrow>
      kernal_mus 5 ! (i + 1) - kernal_mus 5 ! i = 2 / (real 5 - 1)" by blast
  have a: "kernal_mus 5 ! (2 + 1) - kernal_mus 5 ! 2 = 2 / (real 5 - 1)"
    using A[rule_format, of 2] by simp
  from t have B: "\<forall>i j. 1 \<le> i \<and> i < j \<and> j < 5 \<longrightarrow> kernal_mus 5 ! i < kernal_mus 5 ! j"
    by blast
  have b: "kernal_mus 5 ! 1 < kernal_mus 5 ! 4"
    using B[rule_format, of 1 4] by simp
  from t have C: "\<forall>i. 1 \<le> i \<and> i < 5 \<longrightarrow>
        (kernel_sigmas 5 (1 / 2) ! 0 < kernel_sigmas 5 (1 / 2) ! i
           \<longleftrightarrow> 1 / 1000 < (1 / 2) * (2 / (real 5 - 1)))" by blast
  have c: "kernel_sigmas 5 (1 / 2) ! 0 < kernel_sigmas 5 (1 / 2) ! 3"
    using C[rule_format, of 3] by simp
  show ?thesis using h v a b c by blast
qed

section \<open>Properties of the Pairwise Trainer\<close>

lemma saved_paths_append: "saved_paths (a @ b) = saved_paths a @ saved_paths b"
  by (induction a rule: saved_paths.induct) auto

lemma written_append: "written (a @ b) = written a @ written b"
  by (induction a rule: written.induct) auto

lemma written_map_Wrote: "written (map Wrote ls) = ls"
  by (induction ls) auto

lemma train_batch_saves_ok:
  assumes "train_batch K n (Some d) r b = Inr r'" and "saves_ok d c (trace r)"
  shows "saves_ok d c (trace r')"
  using assms
  by (auto simp: train_batch_def Let_def save_to_def saves_ok_def saved_paths_append
      split: if_splits)

lemma train_epoch_saves_ok:
  "train_epoch K n (Some d) r bs = Inr r' \<Longrightarrow> saves_ok d c (trace r) \<Longrightarrow>
   saves_ok d c (trace r')"
proof (induction bs arbitrary: r)
  case Nil
  then show ?case by simp
next
  case (Cons b bs)
  then show ?case
    by (auto split: sum.splits dest: train_batch_saves_ok)
qed

lemma train_epochs_saves_ok:
  "train_epochs K n (Some d) r es = Inr r' \<Longrightarrow> saves_ok d c (trace r) \<Longrightarrow>
   saves_ok d (c + length es) (trace r')"
proof (induction es arbitrary: r c)
  case Nil
  then show ?case by simp
next
  case (Cons e es)
  from Cons.prems obtain r1 where
    1: "train_epoch K n (Some d) r (train_batches K e) = Inr r1" and
    2: "train_epochs K n (Some d) (r1\<lparr>trace := trace r1 @ [Closed_pair_stream]\<rparr>) es = Inr r'"
    by (auto split: sum.splits)
  from train_epoch_saves_ok[OF 1 Cons.prems(2)]
  have "saves_ok d (Suc c) (trace (r1\<lparr>trace := trace r1 @ [Closed_pair_stream]\<rparr>))"
    by (simp add: saves_ok_def saved_paths_append)
  from Cons.IH[OF 2 this] show ?case by simp
qed

lemma start_training_saves_ok:
  "start_training K fs dir lm = Inr r \<Longrightarrow> saves_ok d 0 (trace r)"
  by (auto simp: start_training_def saves_ok_def split: if_splits option.splits)

lemma subset_singleton_replicate: "set xs \<subseteq> {a} \<Longrightarrow> xs = replicate (length xs) a"
  by (induction xs) auto

lemma final_path_not_best_path: "train_final_path d \<noteq> train_best_path d"
  by (simp add: train_final_path_def train_best_path_def)

lemmas example_run_simps =
  example_knrm_def no_checkpoints_def one_checkpoint_def stale_checkpoint_def
  train_def start_training_def train_batch_def save_to_def Let_def
  test_def start_testing_def n_test_batches_def score_line_def events_of_def
  train_best_path_def train_final_path_def test_restore_path_def upt_rec

text \<open>
  Claim C1, as stated, fails: a run of two epochs in which no validation pass is due
  completes and saves exactly once, after the last epoch. Nothing is saved when the first
  epoch ends, or the second.
\<close>

theorem no_checkpoint_at_end_of_epoch:
  "max_epochs (example_knrm 100) = 2
   \<and> \<not> isl (train (example_knrm 100) no_checkpoints 5 (Some ''ckpt'') False)
   \<and> events_of (train (example_knrm 100) no_checkpoints 5 (Some ''ckpt'') False) =
       [Initialized, Optimized, Optimized, Closed_pair_stream,
        Optimized, Optimized, Closed_pair_stream, Saved ''ckpt/final_data.ckpt'']"
  by (simp add: example_run_simps)

text \<open>
  Claim C1, amended. Whenever \<^verbatim>\<open>train\<close> runs to completion, the checkpoints it persisted
  are, in order: some best-validation checkpoints at \<^verbatim>\<open>checkpoint_dir + '/data.ckpt'\<close>, at
  most one for each validation pass, and then one end-of-training checkpoint at
  \<^verbatim>\<open>checkpoint_dir + '/final_data.ckpt'\<close>, a different path, written as the last action
  after the last epoch and holding the final parameters. The end of an epoch persists
  nothing.
\<close>

theorem train_saves_final_checkpoint_once:
  assumes "train K fs n (Some d) lm = Inr s"
  shows "saved_paths (trace s) =
           replicate (length (saved_paths (trace s)) - 1) (train_best_path d)
             @ [train_final_path d]
         \<and> length (saved_paths (trace s)) - 1 \<le> count_list (trace s) Validated
         \<and> last (trace s) = Saved (train_final_path d)
         \<and> count_list (trace s) Closed_pair_stream = max_epochs K
         \<and> disk s (train_final_path d) = Some (variables s)
         \<and> train_final_path d \<noteq> train_best_path d"
proof -
  from assms obtain r0 r where
    0: "start_training K fs (Some d) lm = Inr r0" and
    1: "train_epochs K n (Some d) r0 [0..<max_epochs K] = Inr r" and
    s: "s = \<lparr>variables = variables r, disk = (disk r)(train_final_path d \<mapsto> variables r),
             trace = trace r @ [Saved (train_final_path d)]\<rparr>"
    by (auto simp: train_def save_to_def split: sum.splits)
  from train_epochs_saves_ok[OF 1 start_training_saves_ok[OF 0]]
  have ok: "saves_ok d (max_epochs K) (trace r)" by simp
  then have "saved_paths (trace r) =
      replicate (length (saved_paths (trace r))) (train_best_path d)"
    by (intro subset_singleton_replicate) (simp add: saves_ok_def)
  then show ?thesis using ok
    by (simp add: s saved_paths_append saves_ok_def final_path_not_best_path)
qed

theorem train_saves_final_checkpoint_once_witness:
  "\<not> isl (train (example_knrm 2) no_checkpoints 5 (Some ''ckpt'') False)
   \<and> events_of (train (example_knrm 2) no_checkpoints 5 (Some ''ckpt'') False) =
       [Initialized, Optimized, Validated, Saved ''ckpt/data.ckpt'', Optimized,
        Closed_pair_stream, Optimized, Optimized, Validated, Closed_pair_stream,
        Saved ''ckpt/final_data.ckpt'']
   \<and> saved_paths (events_of (train (example_knrm 2) no_checkpoints 5 (Some ''ckpt'') False)) =
       replicate 1 (train_best_path ''ckpt'') @ [train_final_path ''ckpt'']
   \<and> count_list (events_of (train (example_knrm 2) no_checkpoints 5 (Some ''ckpt'') False))
        Closed_pair_stream = max_epochs (example_knrm 2)"
proof -
  have ev: "events_of (train (example_knrm 2) no_checkpoints 5 (Some ''ckpt'') False) =
       [Initialized, Optimized, Validated, Saved ''ckpt/data.ckpt'', Optimized,
        Closed_pair_stream, Optimized, Optimized, Validated, Closed_pair_stream,
        Saved ''ckpt/final_data.ckpt'']"
    by (simp add: example_run_simps)
  have "\<not> isl (train (example_knrm 2) no_checkpoints 5 (Some ''ckpt'') False)"
    by (simp add: example_run_simps)
  then obtain s where s: "train (example_knrm 2) no_checkpoints 5 (Some ''ckpt'') False = Inr s"
    by (cases "train (example_knrm 2) no_checkpoints 5 (Some ''ckpt'') False") auto
  then have tr: "events_of (train (example_knrm 2) no_checkpoints 5 (Some ''ckpt'') False)
      = trace s"
    by (simp add: events_of_def)
  have len: "length (saved_paths (trace s)) - 1 = 1"
    using ev tr by simp
  from train_saves_final_checkpoint_once[OF s] len
  have "saved_paths (trace s) = replicate 1 (train_best_path ''ckpt'') @ [train_final_path ''ckpt'']"
    and "count_list (trace s) Closed_pair_stream = max_epochs (example_knrm 2)"
    by simp_all
  then show ?thesis using ev tr s by simp
qed

text \<open>
  Claim C8. When \<^verbatim>\<open>train\<close> is called with \<^verbatim>\<open>load_model\<close> and the checkpoint directory holds
  no usable checkpoint, the process ends with a non-zero exit status and an empty trace:
  no parameter was initialised, no training step ran, nothing was saved. With no checkpoint
  state, or one that names no path, the status is that of \<^verbatim>\<open>exit(-1)\<close>, 255; with a
  checkpoint state that names a path holding no checkpoint, \<^verbatim>\<open>saver.restore\<close> raises and
  the status is 1.
\<close>

theorem resume_without_checkpoint_is_fatal:
  "(ckpt_state fs d = None \<or> ckpt_state fs d = Some [] \<longrightarrow>
      train K fs n (Some d) True = Inl (SystemExit (- 1), [])
      \<and> exit_status (SystemExit (- 1)) = 255)
   \<and> (ckpt_state fs d = Some path \<and> path \<noteq> [] \<and> ckpt_data fs path = None \<longrightarrow>
      train K fs n (Some d) True = Inl (NotFoundError path, [])
      \<and> exit_status (NotFoundError path) = 1)"
  by (auto simp: train_def start_training_def exit_status_def)

theorem resume_without_checkpoint_is_fatal_witness:
  "ckpt_state no_checkpoints ''ckpt'' = None
   \<and> train (example_knrm 2) no_checkpoints 5 (Some ''ckpt'') True = Inl (SystemExit (- 1), [])
   \<and> exit_status (SystemExit (- 1)) = 255
   \<and> ckpt_state stale_checkpoint ''ckpt'' = Some ''ckpt/data.ckpt''
   \<and> ckpt_data stale_checkpoint ''ckpt/data.ckpt'' = None
   \<and> train (example_knrm 2) stale_checkpoint 5 (Some ''ckpt'') True
       = Inl (NotFoundError ''ckpt/data.ckpt'', [])
   \<and> exit_status (NotFoundError ''ckpt/data.ckpt'') = 1"
proof -
  have h1: "ckpt_state no_checkpoints ''ckpt'' = None"
    by (simp add: no_checkpoints_def)
  have h2: "ckpt_state stale_checkpoint ''ckpt'' = Some ''ckpt/data.ckpt''"
    "ckpt_data stale_checkpoint ''ckpt/data.ckpt'' = None"
    by (simp_all add: stale_checkpoint_def)
  show ?thesis
    using h1 h2
      resume_without_checkpoint_is_fatal
        [of no_checkpoints "''ckpt''" "example_knrm 2" 5 "''x''"]
      resume_without_checkpoint_is_fatal
        [of stale_checkpoint "''ckpt''" "example_knrm 2" 5 "''ckpt/data.ckpt''"]
    by simp
qed

section \<open>Properties of the Batch Scorer\<close>

lemma score_batches_events:
  "\<exists>ls. events_of (score_batches K s bs) = trace s @ map Wrote ls"
proof (induction bs arbitrary: s)
  case Nil
  show ?case by (simp add: events_of_def)
next
  case (Cons b bs)
  show ?case
  proof (cases "point_batches K b")
    case None
    then show ?thesis by (simp add: events_of_def)
  next
    case (Some X)
    show ?thesis
    proof (cases "length (re_pad K X (batch_size K)) = batch_size K")
      case False
      then show ?thesis using Some by (simp add: events_of_def)
    next
      case True
      let ?s = "s\<lparr>trace := trace s @ map (\<lambda>row. Wrote (score_line K (variables s) row))
                        (re_pad K X (batch_size K))\<rparr>"
      from Cons.IH[of ?s] obtain ls where
        "events_of (score_batches K ?s bs) = trace ?s @ map Wrote ls"
        by blast
      then have "events_of (score_batches K s (b # bs)) =
          trace s @ map Wrote (map (score_line K (variables s)) (re_pad K X (batch_size K)) @ ls)"
        using Some True by simp
      then show ?thesis by blast
    qed
  qed
qed

lemma test_events:
  "events_of (test K fs n dir lm) = [] \<and> lm \<or>
   (\<exists>ls. events_of (test K fs n dir lm) =
      (if lm then Restored (test_restore_path (the dir)) else Initialized) # map Wrote ls)"
proof (cases "start_testing K fs dir lm")
  case (Inl e)
  then show ?thesis
    by (auto simp: test_def events_of_def start_testing_def split: if_splits option.splits)
next
  case (Inr s)
  then have tr: "trace s = [if lm then Restored (test_restore_path (the dir)) else Initialized]"
    by (auto simp: start_testing_def split: if_splits option.splits)
  show ?thesis
  proof (cases "batch_size K = 0")
    case True
    then show ?thesis using Inr tr by (auto simp: test_def events_of_def)
  next
    case False
    from score_batches_events[of K s] obtain ls where
      "events_of (score_batches K s [0..<n_test_batches n (batch_size K)]) =
         trace s @ map Wrote ls"
      by blast
    then show ?thesis using Inr tr False by (auto simp: test_def)
  qed
qed

lemma score_batches_trace:
  "score_batches K s bs = Inr s' \<Longrightarrow>
   variables s' = variables s
   \<and> trace s' = trace s @ map Wrote (concat (map (\<lambda>b. map (score_line K (variables s))
        (re_pad K (the (point_batches K b)) (batch_size K))) bs))
   \<and> (\<forall>b \<in> set bs. point_batches K b \<noteq> None
        \<and> length (re_pad K (the (point_batches K b)) (batch_size K)) = batch_size K)"
proof (induction bs arbitrary: s)
  case Nil
  then show ?case by simp
next
  case (Cons b bs)
  from Cons.prems obtain X where X: "point_batches K b = Some X"
    and len: "length (re_pad K X (batch_size K)) = batch_size K"
    and rest: "score_batches K
        (s\<lparr>trace := trace s @ map (\<lambda>row. Wrote (score_line K (variables s) row))
              (re_pad K X (batch_size K))\<rparr>) bs = Inr s'"
    by (auto split: option.splits if_splits)
  from Cons.IH[OF rest] show ?case using X len by simp
qed

lemma score_batches_scored_with:
  "\<exists>rows. events_of (score_batches K s bs) =
      trace s @ map (\<lambda>row. Wrote (score_line K (variables s) row)) rows"
proof (induction bs arbitrary: s)
  case Nil
  have "events_of (score_batches K s []) =
      trace s @ map (\<lambda>row. Wrote (score_line K (variables s) row)) []"
    by (simp add: events_of_def)
  then show ?case by blast
next
  case (Cons b bs)
  show ?case
  proof (cases "point_batches K b")
    case None
    then have "events_of (score_batches K s (b # bs)) =
        trace s @ map (\<lambda>row. Wrote (score_line K (variables s) row)) []"
      by (simp add: events_of_def)
    then show ?thesis by blast
  next
    case (Some X)
    show ?thesis
    proof (cases "length (re_pad K X (batch_size K)) = batch_size K")
      case False
      then have "events_of (score_batches K s (b # bs)) =
          trace s @ map (\<lambda>row. Wrote (score_line K (variables s) row)) []"
        using Some by (simp add: events_of_def)
      then show ?thesis by blast
    next
      case True
      let ?s = "s\<lparr>trace := trace s @ map (\<lambda>row. Wrote (score_line K (variables s) row))
                        (re_pad K X (batch_size K))\<rparr>"
      from Cons.IH[of ?s] obtain rows where
        "events_of (score_batches K ?s bs) =
           trace ?s @ map (\<lambda>row. Wrote (score_line K (variables ?s) row)) rows"
        by blast
      then have "events_of (score_batches K s (b # bs)) =
          trace s @ map (\<lambda>row. Wrote (score_line K (variables s) row))
                      (re_pad K X (batch_size K) @ rows)"
        using Some True by simp
      then show ?thesis by blast
    qed
  qed
qed

lemma test_scored_with:
  assumes "start_testing K fs dir lm = Inr s0"
  shows "\<exists>rows. events_of (test K fs n dir lm) =
      trace s0 @ map (\<lambda>row. Wrote (score_line K (variables s0) row)) rows"
proof (cases "batch_size K = 0")
  case True
  then have "events_of (test K fs n dir lm) =
      trace s0 @ map (\<lambda>row. Wrote (score_line K (variables s0) row)) []"
    using assms by (simp add: test_def events_of_def)
  then show ?thesis by blast
next
  case False
  then show ?thesis
    using assms score_batches_scored_with[of K s0] by (simp add: test_def)
qed

lemma test_completed_variables:
  assumes "test K fs n dir lm = Inr s"
  shows "\<exists>s0. start_testing K fs dir lm = Inr s0 \<and> variables s = variables s0
    \<and> written (trace s) =
        concat (map (\<lambda>b. map (score_line K (variables s))
                          (re_pad K (the (point_batches K b)) (batch_size K)))
                 [0..<n_test_batches n (batch_size K)])"
proof -
  from assms obtain s0 where
    s0: "start_testing K fs dir lm = Inr s0" and
    run: "score_batches K s0 [0..<n_test_batches n (batch_size K)] = Inr s"
    by (auto simp: test_def split: sum.splits if_splits)
  from s0 have w0: "written (trace s0) = []"
    by (auto simp: start_testing_def split: if_splits option.splits)
  from score_batches_trace[OF run] w0 have
    "variables s = variables s0"
    "written (trace s) =
        concat (map (\<lambda>b. map (score_line K (variables s))
                          (re_pad K (the (point_batches K b)) (batch_size K)))
                 [0..<n_test_batches n (batch_size K)])"
    by (simp_all add: written_append written_map_Wrote)
  then show ?thesis using s0 by blast
qed

text \<open>
  Claim C2, as stated, fails: \<^verbatim>\<open>test\<close> called with \<^verbatim>\<open>load_model=False\<close>, the default of the
  parameter, initialises the parameters afresh, restores nothing and scores with them.
\<close>

theorem test_without_load_model_initializes:
  "\<not> isl (test (example_knrm 2) one_checkpoint 3 (Some ''ckpt/'') False)
   \<and> events_of (test (example_knrm 2) one_checkpoint 3 (Some ''ckpt/'') False) =
       [Initialized, Wrote (''lo'' @ [CHR 0x0A]), Wrote (''hi'' @ [CHR 0x0A]),
        Wrote (''hi'' @ [CHR 0x0A]), Wrote (''lo'' @ [CHR 0x0A])]"
  by (simp add: example_run_simps)

text \<open>
  Claim C2, amended. Called with \<^verbatim>\<open>load_model=True\<close>, as the command line always calls it,
  \<^verbatim>\<open>test\<close> never initialises the parameters. With no checkpoint directory, or with no
  checkpoint at \<^verbatim>\<open>checkpoint_dir + 'data.ckpt'\<close>, the run stops with an error before anything
  is written. Otherwise it restores that checkpoint first, every line written after that is
  a score computed with the restored parameters, and a run that completes ends with exactly
  the parameters of the checkpoint. Called with \<^verbatim>\<open>load_model=False\<close>, the default, it
  initialises the parameters instead and every score is computed with the initial ones.
\<close>

theorem test_restores_when_load_model:
  "Initialized \<notin> set (events_of (test K fs n dir True))
   \<and> (events_of (test K fs n dir True) = []
      \<or> (\<exists>d ls. dir = Some d
           \<and> events_of (test K fs n dir True) = Restored (test_restore_path d) # map Wrote ls))
   \<and> (\<not> arg_train a \<longrightarrow>
        main K fs a = test K fs (test_file_lines a) (arg_checkpoint_dir a) True
        \<and> Initialized \<notin> set (events_of (main K fs a)))
   \<and> (\<exists>ls. events_of (test K fs n dir False) = Initialized # map Wrote ls)
   \<and> (dir = None \<longrightarrow> test K fs n dir True = Inl (TypeError, []))
   \<and> (dir = Some d \<and> ckpt_data fs (test_restore_path d) = None \<longrightarrow>
        test K fs n dir True = Inl (NotFoundError (test_restore_path d), []))
   \<and> (dir = Some d \<and> ckpt_data fs (test_restore_path d) = Some p \<longrightarrow>
        (\<exists>rows. events_of (test K fs n dir True) =
           Restored (test_restore_path d) # map (\<lambda>row. Wrote (score_line K p row)) rows))
   \<and> (test K fs n dir True = Inr s \<longrightarrow>
        (\<exists>d. dir = Some d \<and> ckpt_data fs (test_restore_path d) = Some (variables s))
        \<and> written (trace s) =
            concat (map (\<lambda>b. map (score_line K (variables s))
                              (re_pad K (the (point_batches K b)) (batch_size K)))
                     [0..<n_test_batches n (batch_size K)]))
   \<and> (\<exists>rows. events_of (test K fs n dir False) =
          Initialized # map (\<lambda>row. Wrote (score_line K (initial_variables K) row)) rows)
   \<and> (test K fs n dir False = Inr s' \<longrightarrow> variables s' = initial_variables K)"
proof -
  have A: "events_of (test K fs n dir True) = []
      \<or> (\<exists>d ls. dir = Some d
           \<and> events_of (test K fs n dir True) = Restored (test_restore_path d) # map Wrote ls)"
    for n dir
  proof (cases dir)
    case None
    then show ?thesis by (simp add: test_def start_testing_def events_of_def)
  next
    case (Some d)
    then show ?thesis using test_events[of K fs n dir True] by auto
  qed
  have B: "Initialized \<notin> set (events_of (test K fs n dir True))" for n dir
    using A[of n dir] by auto
  have C: "\<exists>ls. events_of (test K fs n dir False) = Initialized # map Wrote ls"
    using test_events[of K fs n dir False] by simp
  have D: "dir = None \<longrightarrow> test K fs n dir True = Inl (TypeError, [])"
    by (simp add: test_def start_testing_def)
  have E: "dir = Some d \<and> ckpt_data fs (test_restore_path d) = None \<longrightarrow>
        test K fs n dir True = Inl (NotFoundError (test_restore_path d), [])"
    by (simp add: test_def start_testing_def)
  have F: "dir = Some d \<and> ckpt_data fs (test_restore_path d) = Some p \<longrightarrow>
        (\<exists>rows. events_of (test K fs n dir True) =
           Restored (test_restore_path d) # map (\<lambda>row. Wrote (score_line K p row)) rows)"
  proof
    assume h: "dir = Some d \<and> ckpt_data fs (test_restore_path d) = Some p"
    then have "start_testing K fs dir True =
        Inr \<lparr>variables = p, disk = ckpt_data fs, trace = [Restored (test_restore_path d)]\<rparr>"
      by (simp add: start_testing_def)
    from test_scored_with[OF this, of n]
    show "\<exists>rows. events_of (test K fs n dir True) =
           Restored (test_restore_path d) # map (\<lambda>row. Wrote (score_line K p row)) rows"
      by simp
  qed
  have G: "test K fs n dir True = Inr s \<longrightarrow>
        (\<exists>d. dir = Some d \<and> ckpt_data fs (test_restore_path d) = Some (variables s))
        \<and> written (trace s) =
            concat (map (\<lambda>b. map (score_line K (variables s))
                              (re_pad K (the (point_batches K b)) (batch_size K)))
                     [0..<n_test_batches n (batch_size K)])"
  proof
    assume "test K fs n dir True = Inr s"
    from test_completed_variables[OF this] obtain s0 where
      s0: "start_testing K fs dir True = Inr s0" and v: "variables s = variables s0"
      and w: "written (trace s) =
            concat (map (\<lambda>b. map (score_line K (variables s))
                              (re_pad K (the (point_batches K b)) (batch_size K)))
                     [0..<n_test_batches n (batch_size K)])"
      by blast
    from s0 v have "\<exists>d. dir = Some d \<and> ckpt_data fs (test_restore_path d) = Some (variables s)"
      by (auto simp: start_testing_def split: option.splits)
    then show "(\<exists>d. dir = Some d \<and> ckpt_data fs (test_restore_path d) = Some (variables s))
        \<and> written (trace s) =
            concat (map (\<lambda>b. map (score_line K (variables s))
                              (re_pad K (the (point_batches K b)) (batch_size K)))
                     [0..<n_test_batches n (batch_size K)])"
      using w by blast
  qed
  have s0: "start_testing K fs dir False =
      Inr \<lparr>variables = initial_variables K, disk = ckpt_data fs, trace = [Initialized]\<rparr>"
    by (simp add: start_testing_def)
  have H: "\<exists>rows. events_of (test K fs n dir False) =
          Initialized # map (\<lambda>row. Wrote (score_line K (initial_variables K) row)) rows"
    using test_scored_with[OF s0, of n] by simp
  have I: "test K fs n dir False = Inr s' \<longrightarrow> variables s' = initial_variables K"
  proof
    assume "test K fs n dir False = Inr s'"
    from test_completed_variables[OF this] show "variables s' = initial_variables K"
      by (simp add: s0)
  qed
  have M: "\<not> arg_train a \<longrightarrow>
        main K fs a = test K fs (test_file_lines a) (arg_checkpoint_dir a) True
        \<and> Initialized \<notin> set (events_of (main K fs a))"
    using B by (simp add: main_def)
  show ?thesis
    using A[of n dir] B[of n dir] M C D E F G H I by blast
qed

theorem test_restores_when_load_model_witness:
  "ckpt_data trained_checkpoint (test_restore_path ''ckpt/'') = Some 1
   \<and> events_of (test (example_knrm 2) trained_checkpoint 3 (Some ''ckpt/'') True) =
       Restored (test_restore_path ''ckpt/'')
         # map (\<lambda>row. Wrote (score_line (example_knrm 2) 1 row)) [1, 2, 3, 0]
   \<and> map (score_line (example_knrm 2) 1) [1, 2, 3, 0] =
        [''hi'' @ [CHR 0x0A], ''hi'' @ [CHR 0x0A], ''hi'' @ [CHR 0x0A], ''lo'' @ [CHR 0x0A]]
   \<and> Initialized \<notin> set (events_of
        (test (example_knrm 2) trained_checkpoint 3 (Some ''ckpt/'') True))
   \<and> ckpt_data no_checkpoints (test_restore_path ''ckpt/'') = None
   \<and> test (example_knrm 2) no_checkpoints 3 (Some ''ckpt/'') True
        = Inl (NotFoundError (test_restore_path ''ckpt/''), [])
   \<and> test (example_knrm 2) trained_checkpoint 3 None True = Inl (TypeError, [])
   \<and> \<not> arg_train \<lparr>arg_train = False, arg_load_model = False,
          arg_checkpoint_dir = Some ''ckpt/'', train_file_lines = 0, test_file_lines = 3\<rparr>
   \<and> Initialized \<notin> set (events_of (main (example_knrm 2) trained_checkpoint
        \<lparr>arg_train = False, arg_load_model = False,
          arg_checkpoint_dir = Some ''ckpt/'', train_file_lines = 0, test_file_lines = 3\<rparr>))
   \<and> events_of (test (example_knrm 2) trained_checkpoint 3 (Some ''ckpt/'') False) =
       Initialized # map (\<lambda>row. Wrote (score_line (example_knrm 2) 0 row)) [1, 2, 3, 0]
   \<and> map (score_line (example_knrm 2) 0) [1, 2, 3, 0] =
        [''lo'' @ [CHR 0x0A], ''hi'' @ [CHR 0x0A], ''hi'' @ [CHR 0x0A], ''lo'' @ [CHR 0x0A]]"
proof -
  have c: "ckpt_data trained_checkpoint (test_restore_path ''ckpt/'') = Some 1"
    "ckpt_data no_checkpoints (test_restore_path ''ckpt/'') = None"
    by (simp_all add: trained_checkpoint_def no_checkpoints_def test_restore_path_def)
  have ev: "events_of (test (example_knrm 2) trained_checkpoint 3 (Some ''ckpt/'') True) =
       Restored (test_restore_path ''ckpt/'')
         # map (\<lambda>row. Wrote (score_line (example_knrm 2) 1 row)) [1, 2, 3, 0]"
    "events_of (test (example_knrm 2) trained_checkpoint 3 (Some ''ckpt/'') False) =
       Initialized # map (\<lambda>row. Wrote (score_line (example_knrm 2) 0 row)) [1, 2, 3, 0]"
    by (simp_all add: example_run_simps trained_checkpoint_def)
  have sc: "map (score_line (example_knrm 2) 1) [1, 2, 3, 0] =
        [''hi'' @ [CHR 0x0A], ''hi'' @ [CHR 0x0A], ''hi'' @ [CHR 0x0A], ''lo'' @ [CHR 0x0A]]"
    "map (score_line (example_knrm 2) 0) [1, 2, 3, 0] =
        [''lo'' @ [CHR 0x0A], ''hi'' @ [CHR 0x0A], ''hi'' @ [CHR 0x0A], ''lo'' @ [CHR 0x0A]]"
    by (simp_all add: example_run_simps)
  note t1 = test_restores_when_load_model [of "example_knrm 2" trained_checkpoint 3
        "Some ''ckpt/''"
        "\<lparr>arg_train = False, arg_load_model = False,
          arg_checkpoint_dir = Some ''ckpt/'', train_file_lines = 0, test_file_lines = 3\<rparr>"
        "''ckpt/''" 1]
  note t2 = test_restores_when_load_model [of "example_knrm 2" no_checkpoints 3
        "Some ''ckpt/''" _ "''ckpt/''"]
  note t3 = test_restores_when_load_model [of "example_knrm 2" trained_checkpoint 3 None]
  have m: "Initialized \<notin> set (events_of (main (example_knrm 2) trained_checkpoint
        \<lparr>arg_train = False, arg_load_model = False,
          arg_checkpoint_dir = Some ''ckpt/'', train_file_lines = 0, test_file_lines = 3\<rparr>))"
    using t1 by simp
  have i: "Initialized \<notin> set (events_of
        (test (example_knrm 2) trained_checkpoint 3 (Some ''ckpt/'') True))"
    using t1 by blast
  have nf: "test (example_knrm 2) no_checkpoints 3 (Some ''ckpt/'') True
        = Inl (NotFoundError (test_restore_path ''ckpt/''), [])"
    using t2 c(2) by blast
  have te: "test (example_knrm 2) trained_checkpoint 3 None True = Inl (TypeError, [])"
    using t3 by blast
  show ?thesis using c ev sc m i nf te by simp
qed

lemma n_test_batches_bounds:
  assumes "0 < bs"
  shows "n \<le> n_test_batches n bs * bs \<and> n_test_batches n bs * bs < n + bs"
proof -
  let ?m = "n + bs - 1"
  have 1: "?m div bs * bs + ?m mod bs = ?m" by simp
  have 2: "?m mod bs < bs" using assms by simp
  show ?thesis unfolding n_test_batches_def using 1 2 assms by linarith
qed

lemma n_test_batches_exact_iff:
  assumes "0 < bs"
  shows "(n_test_batches n bs * bs = n) = (bs dvd n)"
proof
  assume "n_test_batches n bs * bs = n"
  then show "bs dvd n" by (metis dvd_triv_right)
next
  assume "bs dvd n"
  then obtain k' where "n = bs * k'" ..
  then have k: "n = k' * bs" by (simp add: mult.commute)
  from n_test_batches_bounds[OF assms, of n]
  have "k' * bs \<le> n_test_batches n bs * bs" "n_test_batches n bs * bs < (k' + 1) * bs"
    by (simp_all add: k)
  then have "k' \<le> n_test_batches n bs" "n_test_batches n bs < k' + 1"
    using assms by (simp_all only: mult_le_cancel2 mult_less_cancel2)
  then show "n_test_batches n bs * bs = n" using k by simp
qed

lemma n_test_batches_ceiling:
  assumes "0 < bs"
  shows "n_test_batches n bs = nat \<lceil>real n / real bs\<rceil>"
proof -
  from n_test_batches_bounds[OF assms, of n]
  have 1: "n \<le> n_test_batches n bs * bs" and 2: "n_test_batches n bs * bs < n + bs"
    by auto
  have "real n \<le> real (n_test_batches n bs * bs)"
    using 1 by (simp only: of_nat_le_iff)
  then have a: "real n / real bs \<le> real (n_test_batches n bs)"
    using assms by (simp add: field_simps)
  have "real (n_test_batches n bs * bs) < real (n + bs)"
    using 2 by (simp only: of_nat_less_iff)
  then have b: "real (n_test_batches n bs) - 1 < real n / real bs"
    using assms by (simp add: field_simps)
  have "\<lceil>real n / real bs\<rceil> = int (n_test_batches n bs)"
    using a b by (intro ceiling_unique) auto
  then show ?thesis by simp
qed

text \<open>
  Claim C9, as stated, fails when the batch size does not divide the number of input
  pairs: three pairs in batches of two give two batches and four output lines, the last
  one the score of a padding row.
\<close>

theorem three_pairs_give_four_lines:
  "\<not> isl (test (example_knrm 2) one_checkpoint 3 (Some ''ckpt/'') True)
   \<and> batch_size (example_knrm 2) = 2
   \<and> written (events_of (test (example_knrm 2) one_checkpoint 3 (Some ''ckpt/'') True)) =
       [''lo'' @ [CHR 0x0A], ''hi'' @ [CHR 0x0A], ''hi'' @ [CHR 0x0A], ''lo'' @ [CHR 0x0A]]
   \<and> length (written (events_of
        (test (example_knrm 2) one_checkpoint 3 (Some ''ckpt/'') True))) \<noteq> 3"
  by (simp add: example_run_simps)

text \<open>
  Claim C9, amended. For a test point file of \<open>N\<close> input pairs, a run of \<^verbatim>\<open>test\<close> that
  completes iterates \<open>ceil(N / batch_size)\<close> batches and writes one score for every row of
  every batch as fed after \<^verbatim>\<open>re_pad\<close>, that is \<open>batch_size\<close> lines for each batch, one
  score on each line, newline-terminated, in the order of the batches and of the rows in
  them, all computed with the parameters the run started with. The number of lines is
  \<open>ceil(N / batch_size) * batch_size\<close>; it is \<open>N\<close> exactly when \<open>batch_size\<close> divides \<open>N\<close>.
\<close>

theorem test_writes_batch_size_lines_per_batch:
  assumes "test K fs N dir lm = Inr s"
  shows "written (trace s) =
           concat (map (\<lambda>b. map (score_line K (variables s))
                              (re_pad K (the (point_batches K b)) (batch_size K)))
                    [0..<n_test_batches N (batch_size K)])
         \<and> n_test_batches N (batch_size K) = nat \<lceil>real N / real (batch_size K)\<rceil>
         \<and> length (written (trace s)) = n_test_batches N (batch_size K) * batch_size K
         \<and> (length (written (trace s)) = N \<longleftrightarrow> batch_size K dvd N)
         \<and> (\<forall>l \<in> set (written (trace s)). l \<noteq> [] \<and> last l = CHR 0x0A)"
proof -
  from assms obtain s0 where
    s0: "start_testing K fs dir lm = Inr s0" and
    bs: "0 < batch_size K" and
    run: "score_batches K s0 [0..<n_test_batches N (batch_size K)] = Inr s"
    by (auto simp: test_def split: sum.splits if_splits)
  from s0 have w0: "written (trace s0) = []"
    by (auto simp: start_testing_def split: if_splits option.splits)
  note t = score_batches_trace[OF run]
  let ?rows = "\<lambda>b. re_pad K (the (point_batches K b)) (batch_size K)"
  let ?bs = "[0..<n_test_batches N (batch_size K)]"
  have w: "written (trace s) = concat (map (\<lambda>b. map (score_line K (variables s)) (?rows b)) ?bs)"
    using t w0 by (simp add: written_append written_map_Wrote)
  have "\<forall>b \<in> set ?bs. length (?rows b) = batch_size K" using t by blast
  then have "map (\<lambda>b. length (map (score_line K (variables s)) (?rows b))) ?bs
      = map (\<lambda>b. batch_size K) ?bs"
    by (intro map_cong) auto
  then have len: "length (written (trace s)) = n_test_batches N (batch_size K) * batch_size K"
    by (simp add: w length_concat comp_def sum_list_replicate map_replicate_const)
  have nl: "\<forall>l \<in> set (written (trace s)). l \<noteq> [] \<and> last l = CHR 0x0A"
    by (auto simp: w score_line_def)
  show ?thesis
    using w len nl n_test_batches_ceiling[OF bs, of N] n_test_batches_exact_iff[OF bs, of N]
    by simp
qed

theorem test_writes_batch_size_lines_per_batch_witness:
  "\<not> isl (test (example_knrm 2) one_checkpoint 4 (Some ''ckpt/'') True)
   \<and> written (events_of (test (example_knrm 2) one_checkpoint 4 (Some ''ckpt/'') True)) =
       [''lo'' @ [CHR 0x0A], ''hi'' @ [CHR 0x0A], ''hi'' @ [CHR 0x0A], ''lo'' @ [CHR 0x0A]]
   \<and> length (written (events_of (test (example_knrm 2) one_checkpoint 4 (Some ''ckpt/'') True)))
       = n_test_batches 4 (batch_size (example_knrm 2)) * batch_size (example_knrm 2)
   \<and> batch_size (example_knrm 2) dvd 4"
proof -
  have "\<not> isl (test (example_knrm 2) one_checkpoint 4 (Some ''ckpt/'') True)"
    by (simp add: example_run_simps)
  then obtain s where s: "test (example_knrm 2) one_checkpoint 4 (Some ''ckpt/'') True = Inr s"
    by (cases "test (example_knrm 2) one_checkpoint 4 (Some ''ckpt/'') True") auto
  have ev: "written (events_of (test (example_knrm 2) one_checkpoint 4 (Some ''ckpt/'') True)) =
       [''lo'' @ [CHR 0x0A], ''hi'' @ [CHR 0x0A], ''hi'' @ [CHR 0x0A], ''lo'' @ [CHR 0x0A]]"
    by (simp add: example_run_simps)
  have tr: "events_of (test (example_knrm 2) one_checkpoint 4 (Some ''ckpt/'') True) = trace s"
    using s by (simp add: events_of_def)
  from test_writes_batch_size_lines_per_batch[OF s]
  have "length (written (trace s)) =
      n_test_batches 4 (batch_size (example_knrm 2)) * batch_size (example_knrm 2)"
    and "length (written (trace s)) = 4 \<longleftrightarrow> batch_size (example_knrm 2) dvd 4"
    by blast+
  then show ?thesis using ev tr s by simp
qed

section \<open>Properties of the kernel pooling\<close>












section \<open>Properties of the Scorer\<close>


lemma map_err_all: "map_err f xs = Inr ys \<Longrightarrow> list_all2 (\<lambda>x y. f x = Inr y) xs ys"
  by (induction xs arbitrary: ys) (auto simp: bind_err_def split: sum.splits)


lemma scorer_range: "scorer feats W b = Inr s \<Longrightarrow> - 1 < s \<and> s < 1"
  by (auto simp: scorer_def tanh_real_lt_1 tanh_real_gt_neg1 split: if_splits)




lemma bind_err_Inr: "bind_err r f = Inr y \<Longrightarrow> \<exists>x. r = Inr x \<and> f x = Inr y"
  by (cases r) (auto simp: bind_err_def)



text \<open>The forward pass on the example configuration, evaluated step by step.\<close>

lemma ex_kde: "kde_rows [[1]] [[1]] [1] [1 / 1000] = Inr [[1]]"
  by (simp add: kde_rows_def kde_entry_def gaussian_def bind_err_def)

lemma ex_pool_uni: "kernel_pooling model_log_kde [[1]] [[1]] [1] [1] [1 / 1000] = Inr [0]"
  by (simp add: kernel_pooling_def ex_kde bind_err_def compress_rows_def model_log_kde_def
      tf_log_def tf_scale_def finite_value_def aggregate_def max_def)

lemma ex_pool_conv: "kernel_pooling conv_model_log_kde [[1]] [[1]] [1] [1] [1 / 1000] = Inr [ln 2]"
  by (simp add: kernel_pooling_def ex_kde bind_err_def compress_rows_def conv_model_log_kde_def
      tf_log1p_def tf_log_def finite_value_def aggregate_def)

lemma ex_lookup: "embedding_lookup [[1], [1]] [1] = Inr [[1]]"
  by (simp add: embedding_lookup_def bind_err_def)

lemma ex_norm: "l2_normalize [[1]] = Inr [[1]]"
  by (simp add: l2_normalize_def bind_err_def)

lemma ex_sim: "similarity_matrix [[1]] [[1]] = [[1]]"
  by (simp add: similarity_matrix_def dot_def)

lemma ex_feed: "feed_ok example_config [1] [1] [[1]] [1] [1] [1 / 1000]"
  by (simp add: feed_ok_def example_config_def)

lemma ex_model_feats:
  "model_feats example_config example_weights [1] [1] [[1]] [1] [1] [1 / 1000] = Inr [0]"
  by (simp add: model_feats_def ex_feed example_weights_def ex_lookup ex_norm ex_sim ex_pool_uni
      bind_err_def del: One_nat_def)

lemma ex_weights: "embeddings example_weights = [[1], [1]]" "W1 example_weights = [1]"
  "b1 example_weights = 0" "W2 example_weights = replicate 9 1"
  by (simp_all add: example_weights_def)

lemma ex_model:
  "model example_config example_weights [1] [1] [[1]] [1] [1] [1 / 1000] = Inr 0"
  by (simp add: model_def ex_model_feats bind_err_def scorer_def dot_def ex_weights
      del: One_nat_def)

lemma ex_conv1: "conv1d (example_filter 1) 1 1 1 [[1]] = [[1]]"
  by (simp add: conv1d_def example_filter_def relu_def Let_def)
lemma ex_conv2: "conv1d (example_filter 2) 1 1 2 [[1]] = [[1]]"
  by (simp add: conv1d_def example_filter_def relu_def Let_def upt_rec numeral_2_eq_2)
lemma ex_conv3: "conv1d (example_filter 3) 1 1 3 [[1]] = [[1]]"
  by (simp add: conv1d_def example_filter_def relu_def Let_def upt_rec numeral_3_eq_3)

lemma ex_filter_ok: "filter_ok 1 1 1 (example_filter 1)" "filter_ok 2 1 1 (example_filter 2)"
  "filter_ok 3 1 1 (example_filter 3)"
  by (simp_all add: filter_ok_def example_filter_def numeral_2_eq_2 numeral_3_eq_3)

lemma ex_layers_q:
  "map_err (\<lambda>(ksize, names). conv_layer example_config example_weights (fst names) ksize [[1]])
     (zip kernel_sizes conv_layer_names) = Inr [[[1]], [[1]], [[1]]]"
  by (simp add: kernel_sizes_def conv_layer_names_def conv_layer_def example_weights_def
      example_config_def ex_filter_ok ex_conv1 ex_conv2 ex_conv3 bind_err_def
      del: One_nat_def)

lemma ex_layers_d:
  "map_err (\<lambda>(ksize, names). conv_layer example_config example_weights (snd names) ksize [[1]])
     (zip kernel_sizes conv_layer_names) = Inr [[[1]], [[1]], [[1]]]"
  by (simp add: kernel_sizes_def conv_layer_names_def conv_layer_def example_weights_def
      example_config_def ex_filter_ok ex_conv1 ex_conv2 ex_conv3 bind_err_def
      del: One_nat_def)

lemma ex_conv_feats:
  "conv_model_feats example_config example_weights conv_layer_names [1] [1] [[1]] [1] [1] [1 / 1000]
     = Inr (replicate 9 (ln 2))"
proof -
  have l: "length conv_layer_names = length kernel_sizes"
    by (simp add: conv_layer_names_def kernel_sizes_def)
  show ?thesis
    by (simp add: conv_model_feats_def ex_feed l ex_weights ex_lookup ex_layers_q ex_layers_d
        ex_norm bind_err_def ex_sim ex_pool_conv numeral_eq_Suc del: One_nat_def)
qed

lemma ex_conv_model:
  "conv_model example_config example_weights conv_layer_names [1] [1] [[1]] [1] [1] [1 / 1000]
     = Inr (tanh (9 * ln 2))"
proof -
  have "dot (replicate 9 (ln 2)) (replicate 9 1) = 9 * ln 2"
    by (simp add: dot_def numeral_eq_Suc)
  then show ?thesis
    by (simp add: conv_model_def ex_conv_feats bind_err_def scorer_def ex_weights
        del: One_nat_def)
qed




section \<open>Properties of the training graph\<close>

lemma first_free_eq:
  "idx \<le> n \<Longrightarrow> (\<forall>i. idx \<le> i \<and> i < n \<longrightarrow> path @ [(pre, i)] \<in> set used) \<Longrightarrow>
   path @ [(pre, n)] \<notin> set used \<Longrightarrow> first_free path pre used idx = n"
proof (induction "n - idx" arbitrary: idx)
  case 0
  then have "idx = n" by simp
  then show ?case using "0.prems"(3) by (simp add: first_free.simps)
next
  case (Suc d)
  then have lt: "idx < n" by simp
  then have "path @ [(pre, idx)] \<in> set used" using Suc.prems(2) by simp
  then have "first_free path pre used idx = first_free path pre used (Suc idx)"
    by (subst first_free.simps) simp
  also have "\<dots> = n"
    using Suc.hyps(2) lt Suc.prems by (intro Suc.hyps(1)) auto
  finally show ?case .
qed

lemma conv1d_vars_auto:
  assumes "scope_reuse cur = Auto_Reuse" and "children_upto (scope_path cur) n (opened g)"
  shows "\<exists>g'. conv1d_vars cur g = Inr (scope_path cur @ [(''conv1d'', n)], g')
           \<and> children_upto (scope_path cur) (Suc n) (opened g')
           \<and> set (var_names g') = set (var_names g)
                \<union> {(scope_path cur @ [(''conv1d'', n)], ''kernel''),
                    (scope_path cur @ [(''conv1d'', n)], ''bias'')}
           \<and> ({(scope_path cur @ [(''conv1d'', n)], ''kernel''),
                (scope_path cur @ [(''conv1d'', n)], ''bias'')} \<subseteq> set (var_names g)
                \<longrightarrow> var_names g' = var_names g)"
proof -
  have ff: "first_free (scope_path cur) ''conv1d'' (opened g) 0 = n"
    using assms(2) by (intro first_free_eq) (auto simp: children_upto_def)
  have nb: "\<not> below (scope_path cur @ [(''conv1d'', n)]) (scope_path cur @ [(''conv1d'', i)])" for i
    by (simp add: below_def)
  show ?thesis
    using assms nb
    by (auto simp: conv1d_vars_def ff enter_scope_def get_variable_def bind_err_def
        exit_scope_def children_upto_def)
qed

lemma conv_layers_vars_auto:
  assumes "scope_reuse cur = Auto_Reuse" and "children_upto (scope_path cur) n (opened g)"
  shows "\<exists>g'. conv_layers_vars cur sizes g = Inr (layer_names (scope_path cur) sizes n, g')
           \<and> set (var_names g') = set (var_names g) \<union> layer_vars (layer_names (scope_path cur) sizes n)
           \<and> (layer_vars (layer_names (scope_path cur) sizes n) \<subseteq> set (var_names g)
                \<longrightarrow> var_names g' = var_names g)"
  using assms(2)
proof (induction sizes arbitrary: n g)
  case Nil
  then show ?case by simp
next
  case (Cons ksize sizes)
  let ?a = "scope_path cur @ [(''conv1d'', n)]" and ?b = "scope_path cur @ [(''conv1d'', Suc n)]"
  from conv1d_vars_auto[OF assms(1) Cons.prems] obtain g1 where
    1: "conv1d_vars cur g = Inr (?a, g1)"
    and c1: "children_upto (scope_path cur) (Suc n) (opened g1)"
    and v1: "set (var_names g1) = set (var_names g) \<union> {(?a, ''kernel''), (?a, ''bias'')}"
    and s1: "{(?a, ''kernel''), (?a, ''bias'')} \<subseteq> set (var_names g) \<longrightarrow> var_names g1 = var_names g"
    by blast
  from conv1d_vars_auto[OF assms(1) c1] obtain g2 where
    2: "conv1d_vars cur g1 = Inr (?b, g2)"
    and c2: "children_upto (scope_path cur) (Suc (Suc n)) (opened g2)"
    and v2: "set (var_names g2) = set (var_names g1) \<union> {(?b, ''kernel''), (?b, ''bias'')}"
    and s2: "{(?b, ''kernel''), (?b, ''bias'')} \<subseteq> set (var_names g1) \<longrightarrow> var_names g2 = var_names g1"
    by blast
  let ?rest = "layer_names (scope_path cur) sizes (Suc (Suc n))"
  from Cons.IH[OF c2] obtain g3 where
    3: "conv_layers_vars cur sizes g2 = Inr (?rest, g3)"
    and v3: "set (var_names g3) = set (var_names g2) \<union> layer_vars ?rest"
    and s3: "layer_vars ?rest \<subseteq> set (var_names g2) \<longrightarrow> var_names g3 = var_names g2"
    by blast
  have A: "conv_layers_vars cur (ksize # sizes) g
      = Inr (layer_names (scope_path cur) (ksize # sizes) n, g3)"
    by (simp add: 1 2 3 bind_err_def)
  have B: "set (var_names g3) = set (var_names g)
      \<union> layer_vars (layer_names (scope_path cur) (ksize # sizes) n)"
    unfolding v3 v2 v1 by auto
  have C: "var_names g3 = var_names g"
    if "layer_vars (layer_names (scope_path cur) (ksize # sizes) n) \<subseteq> set (var_names g)"
  proof -
    from that have "var_names g1 = var_names g" using s1 by simp
    moreover from that this have "var_names g2 = var_names g1" using s2 by simp
    moreover from that calculation have "var_names g3 = var_names g2" using s3 by simp
    ultimately show ?thesis by simp
  qed
  show ?case using A B C by blast
qed

lemma empty_scope:
  "with_scope cur name r (\<lambda>sc g'. Inr ((), g')) g
     = Inr ((), g\<lparr>opened := filter (\<lambda>k. \<not> below (scope_path cur @ [(name, 0)]) k)
                               (List.insert (scope_path cur @ [(name, 0)]) (opened g))\<rparr>)"
  by (simp add: with_scope_def enter_scope_def exit_scope_def bind_err_def)

lemma conv_model_vars_names:
  assumes "children_upto (scope_path cur @ [(''cnn'', 0)]) 0 (opened g)"
  shows "\<exists>g'. conv_model_vars cur g = Inr (layer_names (scope_path cur @ [(''cnn'', 0)]) kernel_sizes 0, g')
           \<and> children_upto (scope_path cur @ [(''cnn'', 0)]) 0 (opened g')
           \<and> set (var_names g') = set (var_names g)
                \<union> layer_vars (layer_names (scope_path cur @ [(''cnn'', 0)]) kernel_sizes 0)
           \<and> (layer_vars (layer_names (scope_path cur @ [(''cnn'', 0)]) kernel_sizes 0)
                 \<subseteq> set (var_names g) \<longrightarrow> var_names g' = var_names g)"
proof -
  let ?p = "scope_path cur @ [(''cnn'', 0)]"
  let ?sc = "\<lparr>scope_path = ?p, scope_reuse = Auto_Reuse\<rparr>"
  let ?g1 = "g\<lparr>opened := List.insert ?p (opened g)\<rparr>"
  have e: "enter_scope cur (''cnn'', 0) Auto_Reuse g = (?sc, ?g1)"
    by (simp add: enter_scope_def)
  have c: "children_upto (scope_path ?sc) 0 (opened ?g1)"
    using assms by (auto simp: children_upto_def)
  from conv_layers_vars_auto[of ?sc 0 ?g1 kernel_sizes, OF _ c] obtain g2 where
    2: "conv_layers_vars ?sc kernel_sizes ?g1 = Inr (layer_names ?p kernel_sizes 0, g2)"
    and v2: "set (var_names g2) = set (var_names g) \<union> layer_vars (layer_names ?p kernel_sizes 0)"
    and s2: "layer_vars (layer_names ?p kernel_sizes 0) \<subseteq> set (var_names g)
                \<longrightarrow> var_names g2 = var_names g"
    by auto
  let ?g3 = "exit_scope ?p g2"
  have w: "with_scope cur ''cnn'' Auto_Reuse (\<lambda>sc. conv_layers_vars sc kernel_sizes) g
      = Inr (layer_names ?p kernel_sizes 0, ?g3)"
    by (simp add: with_scope_def e 2 bind_err_def)
  have c3: "children_upto ?p 0 (opened ?g3)"
    by (auto simp: children_upto_def exit_scope_def below_def)
  obtain g' where g': "conv_model_vars cur g = Inr (layer_names ?p kernel_sizes 0, g')"
    and o: "set (opened g') \<subseteq> set (opened ?g3) \<union> {scope_path cur @ [(''kernel'', 0)], scope_path cur @ [(''fc'', 0)]}"
    and v: "var_names g' = var_names ?g3"
    by (auto simp: conv_model_vars_def w empty_scope bind_err_def)
  have "children_upto ?p 0 (opened g')"
    using c3 o by (auto simp: children_upto_def)
  then show ?thesis using g' v v2 s2 by (auto simp: exit_scope_def)
qed

lemma layer_names_model: "layer_names [(''model'', 0), (''cnn'', 0)] kernel_sizes 0 = conv_layer_names"
  by (simp add: kernel_sizes_def conv_layer_names_def numeral_eq_Suc)

lemma model_scope_passes:
  assumes "\<forall>i. [(''model'', 0), (''cnn'', 0), (''conv1d'', i)] \<notin> set (opened g)"
  shows "\<exists>g1 g2 :: var_store.
           conv_model_vars \<lparr>scope_path = [(''model'', 0)], scope_reuse = No_Reuse\<rparr>
             (g\<lparr>opened := List.insert [(''model'', 0)] (opened g)\<rparr>)
             = Inr (conv_layer_names, g1)
         \<and> conv_model_vars \<lparr>scope_path = [(''model'', 0)], scope_reuse = Reuse\<rparr> g1
             = Inr (conv_layer_names, g2)
         \<and> set (var_names g1) = set (var_names g) \<union> layer_vars conv_layer_names
         \<and> var_names g2 = var_names g1"
proof -
  let ?scope = "\<lparr>scope_path = [(''model'', 0)], scope_reuse = No_Reuse\<rparr>"
  let ?scope' = "\<lparr>scope_path = [(''model'', 0)], scope_reuse = Reuse\<rparr>"
  let ?g0 = "g\<lparr>opened := List.insert [(''model'', 0)] (opened g)\<rparr>"
  have c0: "children_upto (scope_path ?scope @ [(''cnn'', 0)]) 0 (opened ?g0)"
    using assms by (auto simp: children_upto_def)
  from conv_model_vars_names[OF c0] obtain g1 where
    1: "conv_model_vars ?scope ?g0 = Inr (conv_layer_names, g1)"
    and c1: "children_upto [(''model'', 0), (''cnn'', 0)] 0 (opened g1)"
    and v1: "set (var_names g1) = set (var_names g) \<union> layer_vars conv_layer_names"
    by (auto simp: layer_names_model)
  have c1': "children_upto (scope_path ?scope' @ [(''cnn'', 0)]) 0 (opened g1)"
    using c1 by simp
  from conv_model_vars_names[OF c1'] obtain g2 where
    2: "conv_model_vars ?scope' g1 = Inr (conv_layer_names, g2)"
    and s2: "layer_vars conv_layer_names \<subseteq> set (var_names g1) \<longrightarrow> var_names g2 = var_names g1"
    by (auto simp: layer_names_model)
  have v: "var_names g2 = var_names g1" using s2 v1 by simp
  show ?thesis using 1 2 v1 v by blast
qed

lemma train_graph_names:
  assumes "\<forall>i. [(''model'', 0), (''cnn'', 0), (''conv1d'', i)] \<notin> set (opened g)"
  shows "\<exists>g'. train_graph True g = Inr ((conv_layer_names, conv_layer_names), g')
           \<and> set (var_names g') = set (var_names g) \<union> layer_vars conv_layer_names"
proof -
  let ?scope = "\<lparr>scope_path = [(''model'', 0)], scope_reuse = No_Reuse\<rparr>"
  let ?g0 = "g\<lparr>opened := List.insert [(''model'', 0)] (opened g)\<rparr>"
  have e: "enter_scope root_scope (''model'', 0) No_Reuse g = (?scope, ?g0)"
    by (simp add: enter_scope_def root_scope_def)
  from model_scope_passes[OF assms] obtain g1 g2 :: var_store where
    1: "conv_model_vars ?scope ?g0 = Inr (conv_layer_names, g1)"
    and 2: "conv_model_vars \<lparr>scope_path = [(''model'', 0)], scope_reuse = Reuse\<rparr> g1
             = Inr (conv_layer_names, g2)"
    and v1: "set (var_names g1) = set (var_names g) \<union> layer_vars conv_layer_names"
    and v: "var_names g2 = var_names g1"
    by blast
  have "train_graph True g
      = Inr ((conv_layer_names, conv_layer_names), exit_scope [(''model'', 0)] g2)"
    by (simp add: train_graph_def with_scope_def e 1 2 bind_err_def)
  moreover have "set (var_names (exit_scope [(''model'', 0)] g2))
      = set (var_names g) \<union> layer_vars conv_layer_names"
    using v v1 by (simp add: exit_scope_def)
  ultimately show ?thesis by blast
qed

lemma same_pass_twice:
  "bind_err X (\<lambda>a. bind_err X (\<lambda>b. Inr (a, b))) = Inr (x, y) \<Longrightarrow> x = y"
  by (cases X) (auto simp: bind_err_def)

lemma train_scores_row_conv:
  assumes "\<forall>i. [(''model'', 0), (''cnn'', 0), (''conv1d'', i)] \<notin> set (opened g)"
  shows "train_scores_row cfg w g True mu sigma (q, qw, (pd, pm), (nd, nm)) =
     bind_err (conv_model cfg w conv_layer_names q pd pm qw mu sigma) (\<lambda>o_pos.
     bind_err (conv_model cfg w conv_layer_names q nd nm qw mu sigma) (\<lambda>o_neg.
     Inr (o_pos, o_neg)))"
proof -
  from train_graph_names[OF assms] obtain g' where
    "train_graph True g = Inr ((conv_layer_names, conv_layer_names), g')"
    by blast
  then show ?thesis by (simp add: train_scores_row_def bind_err_def)
qed

lemma train_scores_row_unigram:
  "train_scores_row cfg w g False mu sigma (q, qw, (pd, pm), (nd, nm)) =
     bind_err (model cfg w q pd pm qw mu sigma) (\<lambda>o_pos.
     bind_err (model cfg w q nd nm qw mu sigma) (\<lambda>o_neg.
     Inr (o_pos, o_neg)))"
  by (simp add: train_scores_row_def train_graph_def bind_err_def)

lemma train_scores_row_equal:
  assumes "\<forall>i. [(''model'', 0), (''cnn'', 0), (''conv1d'', i)] \<notin> set (opened g)"
    and "snd (snd (snd row)) = fst (snd (snd row))"
    and "train_scores_row cfg w g conv mu sigma row = Inr (x, y)"
  shows "x = y"
proof -
  obtain q qw pd pm where row: "row = (q, qw, (pd, pm), (pd, pm))"
    using assms(2) by (cases row) auto
  show ?thesis
  proof (cases conv)
    case True
    then show ?thesis
      using assms(3) train_scores_row_conv[OF assms(1), of cfg w mu sigma q qw pd pm pd pm]
      by (auto simp: row dest: same_pass_twice)
  next
    case False
    then show ?thesis
      using assms(3) train_scores_row_unigram[of cfg w g mu sigma q qw pd pm pd pm]
      by (auto simp: row dest: same_pass_twice)
  qed
qed

lemma train_scores_equal:
  assumes "\<forall>i. [(''model'', 0), (''cnn'', 0), (''conv1d'', i)] \<notin> set (opened g)"
    and "\<forall>row \<in> set batch. snd (snd (snd row)) = fst (snd (snd row))"
    and "train_scores cfg w g conv mu sigma batch = Inr (o_pos, o_neg)"
  shows "o_pos = o_neg"
proof -
  from assms(3) obtain scores where
    m: "map_err (train_scores_row cfg w g conv mu sigma) batch = Inr scores"
    and o: "o_pos = map fst scores" "o_neg = map snd scores"
    unfolding train_scores_def by (auto dest!: bind_err_Inr)
  have "fst s = snd s" if "s \<in> set scores" for s
  proof -
    from that obtain i where i: "i < length scores" "scores ! i = s"
      by (auto simp: in_set_conv_nth)
    from map_err_all[OF m] i have
      "train_scores_row cfg w g conv mu sigma (batch ! i) = Inr (fst s, snd s)"
      and "i < length batch"
      by (auto simp: list_all2_conv_all_nth)
    then show ?thesis
      using train_scores_row_equal[OF assms(1)] assms(2) by (metis nth_mem)
  qed
  then show ?thesis by (simp add: o)
qed

text \<open>
  Claim C7. Within a training step the positive and the negative forward pass read the same
  parameters. Without \<^verbatim>\<open>conv\<close> both are \<^verbatim>\<open>self.model\<close> on the same object. With \<^verbatim>\<open>conv\<close>, on a
  graph in which no layer of \<^verbatim>\<open>model/cnn\<close> is opened yet, building the two passes assigns
  both the same six layers, the negative pass reuses their variables and creates none,
  and both are \<^verbatim>\<open>conv_model\<close> on these layers with the same embeddings, \<^verbatim>\<open>W2\<close> and \<^verbatim>\<open>b1\<close>.
  Consequently, for every batch in which the negative document ids and mask equal the
  positive ones, the positive and the negative score vectors are equal.
\<close>

theorem positive_and_negative_pass_share_parameters:
  assumes "\<forall>i. [(''model'', 0), (''cnn'', 0), (''conv1d'', i)] \<notin> set (opened g)"
  shows "(\<exists>g'. train_graph True g = Inr ((conv_layer_names, conv_layer_names), g')
            \<and> set (var_names g') = set (var_names g) \<union> layer_vars conv_layer_names)
         \<and> (\<exists>g1 g2 :: var_store.
               conv_model_vars \<lparr>scope_path = [(''model'', 0)], scope_reuse = No_Reuse\<rparr>
                 (g\<lparr>opened := List.insert [(''model'', 0)] (opened g)\<rparr>)
                 = Inr (conv_layer_names, g1)
             \<and> conv_model_vars \<lparr>scope_path = [(''model'', 0)], scope_reuse = Reuse\<rparr> g1
                 = Inr (conv_layer_names, g2)
             \<and> var_names g2 = var_names g1)
         \<and> train_graph False g = Inr (([], []), g)
         \<and> train_scores_row cfg w g True mu sigma (q, qw, (pd, pm), (nd, nm)) =
             bind_err (conv_model cfg w conv_layer_names q pd pm qw mu sigma) (\<lambda>o_pos.
             bind_err (conv_model cfg w conv_layer_names q nd nm qw mu sigma) (\<lambda>o_neg.
             Inr (o_pos, o_neg)))
         \<and> train_scores_row cfg w g False mu sigma (q, qw, (pd, pm), (nd, nm)) =
             bind_err (model cfg w q pd pm qw mu sigma) (\<lambda>o_pos.
             bind_err (model cfg w q nd nm qw mu sigma) (\<lambda>o_neg.
             Inr (o_pos, o_neg)))
         \<and> ((\<forall>row \<in> set batch. snd (snd (snd row)) = fst (snd (snd row)))
              \<and> train_scores cfg w g conv mu sigma batch = Inr (o_pos, o_neg)
             \<longrightarrow> o_pos = o_neg)"
proof -
  have A: "\<exists>g1 g2 :: var_store.
               conv_model_vars \<lparr>scope_path = [(''model'', 0)], scope_reuse = No_Reuse\<rparr>
                 (g\<lparr>opened := List.insert [(''model'', 0)] (opened g)\<rparr>)
                 = Inr (conv_layer_names, g1)
             \<and> conv_model_vars \<lparr>scope_path = [(''model'', 0)], scope_reuse = Reuse\<rparr> g1
                 = Inr (conv_layer_names, g2)
             \<and> var_names g2 = var_names g1"
    using model_scope_passes[OF assms] by blast
  have B: "train_graph False g = Inr (([], []), g)"
    by (simp add: train_graph_def)
  have C: "(\<forall>row \<in> set batch. snd (snd (snd row)) = fst (snd (snd row)))
              \<and> train_scores cfg w g conv mu sigma batch = Inr (o_pos, o_neg)
             \<longrightarrow> o_pos = o_neg"
    using train_scores_equal[OF assms] by blast
  show ?thesis
    using train_graph_names[OF assms] A B C
      train_scores_row_conv[OF assms, of cfg w mu sigma q qw pd pm nd nm]
      train_scores_row_unigram[of cfg w g mu sigma q qw pd pm nd nm]
    by blast
qed

theorem positive_and_negative_pass_share_parameters_witness:
  "opened empty_graph = []
   \<and> train_scores_row example_config example_weights empty_graph True [1] [1 / 1000]
        ([1], [1], ([1], [[1]]), ([1], [[1]])) = Inr (tanh (9 * ln 2), tanh (9 * ln 2))
   \<and> train_scores example_config example_weights empty_graph True [1] [1 / 1000]
        [([1], [1], ([1], [[1]]), ([1], [[1]]))] = Inr ([tanh (9 * ln 2)], [tanh (9 * ln 2)])
   \<and> train_scores_row example_config example_weights empty_graph False [1] [1 / 1000]
        ([1], [1], ([1], [[1]]), ([1], [[1]])) = Inr (0, 0)"
proof -
  have h: "\<forall>i. [(''model'', 0), (''cnn'', 0), (''conv1d'', i)] \<notin> set (opened empty_graph)"
    by (simp add: empty_graph_def)
  note t = positive_and_negative_pass_share_parameters
    [OF h, of example_config example_weights "[1]" "[1 / 1000]" "[1]" "[1]" "[1]" "[[1]]"
      "[1]" "[[1]]"]
  have r: "train_scores_row example_config example_weights empty_graph True [1] [1 / 1000]
        ([1], [1], ([1], [[1]]), ([1], [[1]])) = Inr (tanh (9 * ln 2), tanh (9 * ln 2))"
    using t by (simp add: ex_conv_model bind_err_def del: One_nat_def)
  have u: "train_scores_row example_config example_weights empty_graph False [1] [1 / 1000]
        ([1], [1], ([1], [[1]]), ([1], [[1]])) = Inr (0, 0)"
    using t by (simp add: ex_model bind_err_def del: One_nat_def)
  have b: "train_scores example_config example_weights empty_graph True [1] [1 / 1000]
        [([1], [1], ([1], [[1]]), ([1], [[1]]))] = Inr ([tanh (9 * ln 2)], [tanh (9 * ln 2)])"
    by (simp add: train_scores_def r bind_err_def del: One_nat_def)
  show ?thesis using r u b by (simp add: empty_graph_def)
qed

end
